theory Spec2Isabelle
  imports Main
begin

unbundle bit_operations_syntax

section \<open>Python values, exceptions and string helpers\<close>

text \<open>
  Python strings are modelled as \<^typ>\<open>string\<close>, a character of which is read as a code
  point below 256. \<open>pathlib.Path\<close> objects are a wrapper around the string they were built
  from; what pathlib computes from them (\<open>name\<close>, \<open>parent\<close>, \<open>absolute\<close>, \<open>str\<close>) is
  taken from the operating-system record below.
\<close>

datatype path = Path string

text \<open>An \<open>xml.etree.ElementTree.Element\<close>: tag, attributes in document order, children.\<close>

datatype xelt = Element (tag: string) (attrib: "(string \<times> string) list") (children: "xelt list")

text \<open>
  The second argument of the \<open>AttributeError\<close> raised by \<open>_get_or_fail\<close> is the
  element's key list, that of \<open>_find_or_fail\<close> is the element itself; an attribute read on
  \<open>None\<close> has no second argument.
\<close>

datatype exc_arg = Keys "string list" | Elem xelt | OnNone

datatype error =
    AttributeError string exc_arg
  | ValueError string
  | TypeError string
  | RuntimeError string
  | AssertionError string
  | IndexError
  | SpackError string
  | OSError string

definition ebind :: "error + 'a \<Rightarrow> ('a \<Rightarrow> error + 'b) \<Rightarrow> error + 'b" where
  "ebind m f = (case m of Inl e \<Rightarrow> Inl e | Inr x \<Rightarrow> f x)"

text \<open>A list comprehension whose element expression may raise: the first error wins.\<close>

fun emap :: "('a \<Rightarrow> error + 'b) \<Rightarrow> 'a list \<Rightarrow> error + 'b list" where
  "emap f [] = Inr []"
| "emap f (x # xs) =
     (case f x of
        Inl e \<Rightarrow> Inl e
      | Inr y \<Rightarrow> (case emap f xs of Inl e \<Rightarrow> Inl e | Inr ys \<Rightarrow> Inr (y # ys)))"

text \<open>\<open>sep.join(xs)\<close>.\<close>

fun join :: "string \<Rightarrow> string list \<Rightarrow> string" where
  "join sep [] = []"
| "join sep [x] = x"
| "join sep (x # y # ys) = x @ sep @ join sep (y # ys)"

text \<open>\<open>s.split("\n")\<close>: the pieces between newlines, always at least one.\<close>

fun split_nl :: "string \<Rightarrow> string list" where
  "split_nl [] = [[]]"
| "split_nl (c # cs) =
     (if c = CHR 0x0A then [] # split_nl cs
      else (case split_nl cs of l # ls \<Rightarrow> (c # l) # ls | [] \<Rightarrow> [[c]]))"

text \<open>The characters for which \<open>str.isspace\<close> holds, among the code points below 256.\<close>

definition isspace_char :: "char \<Rightarrow> bool" where
  "isspace_char c =
     (of_char c \<in> {9, 10, 11, 12, 13, 28, 29, 30, 31, 32, 133, 160 :: nat})"

definition isspace :: "string \<Rightarrow> bool" where
  "isspace s = (s \<noteq> [] \<and> list_all isspace_char s)"

definition strip :: "string \<Rightarrow> string" where
  "strip s = rev (dropWhile isspace_char (rev (dropWhile isspace_char s)))"

text \<open>\<open>s.split()\<close>: the maximal runs of non-whitespace characters.\<close>

fun split_ws_from :: "string \<Rightarrow> string \<Rightarrow> string list" where
  "split_ws_from cur [] = (if cur = [] then [] else [rev cur])"
| "split_ws_from cur (c # cs) =
     (if isspace_char c
      then (if cur = [] then split_ws_from [] cs else rev cur # split_ws_from [] cs)
      else split_ws_from (c # cur) cs)"

definition split_ws :: "string \<Rightarrow> string list" where
  "split_ws s = split_ws_from [] s"

definition startswith :: "string \<Rightarrow> string \<Rightarrow> bool" where
  "startswith s p = (take (length p) s = p)"

text \<open>\<open>s[1:-1]\<close>.\<close>

definition slice_1_m1 :: "string \<Rightarrow> string" where
  "slice_1_m1 s = butlast (tl s)"

text \<open>
  \<open>int(s)\<close> on a string: surrounding whitespace is stripped, one sign is allowed, then
  decimal digits, with single underscores between digits only; more than 4300 digits are
  refused (the interpreter's default limit on integer strings).
\<close>

definition is_digit :: "char \<Rightarrow> bool" where
  "is_digit c = (48 \<le> (of_char c :: nat) \<and> (of_char c :: nat) \<le> 57)"

fun int_digits :: "bool \<Rightarrow> nat \<Rightarrow> string \<Rightarrow> nat option" where
  "int_digits prev acc [] = (if prev then Some acc else None)"
| "int_digits prev acc (c # cs) =
     (if is_digit c then int_digits True (10 * acc + (of_char c - 48)) cs
      else if c = CHR ''_'' \<and> prev then int_digits False acc cs
      else None)"

definition py_int :: "string \<Rightarrow> error + int" where
  "py_int s =
     (let t = strip s;
          neg = (t \<noteq> [] \<and> hd t = CHR ''-'');
          body = (if t \<noteq> [] \<and> (hd t = CHR ''-'' \<or> hd t = CHR ''+'') then tl t else t)
      in if length (filter is_digit body) > 4300 then Inl (ValueError s)
         else (case int_digits False 0 body of
                 None \<Rightarrow> Inl (ValueError s)
               | Some n \<Rightarrow> Inr (if neg then - int n else int n)))"

section \<open>abigail.py: exit codes and the wrappers of the external tools\<close>

text \<open>The members of the \<open>IntFlag\<close> class \<open>DiffExitCode\<close>.\<close>

definition OK :: int where "OK = 0"
definition DIFF_ERROR :: int where "DIFF_ERROR = 1"
definition USAGE_ERROR :: int where "USAGE_ERROR = 2"
definition ABI_CHANGE :: int where "ABI_CHANGE = 4"
definition INCOMPATIBLE_CHANGE :: int where "INCOMPATIBLE_CHANGE = 8"

text \<open>A \<open>subprocess.CompletedProcess\<close> captured with \<open>text=True\<close>.\<close>

record completed =
  returncode :: int
  stdout :: string
  stderr :: string

text \<open>A tree-sitter syntax node: its type, its source text, its field children, all children.\<close>

datatype node =
  Node (ntype: string) (ntext: string) (nfields: "(string \<times> node) list") (nchildren: "node list")

text \<open>
  What the program takes from its surroundings: \<open>shutil.which\<close>, \<open>subprocess.run\<close> (given
  the number of processes run before, so that two runs of one command may differ), pathlib,
  file reading, the name of the temporary file, \<open>ET.fromstring\<close> and the tree-sitter C
  parser (the root node of the tree it builds).
\<close>

record os =
  which :: "string \<Rightarrow> string option"
  run :: "nat \<Rightarrow> string list \<Rightarrow> error + completed"
  path_str :: "path \<Rightarrow> string"
  path_name :: "path \<Rightarrow> string"
  path_parent :: "path \<Rightarrow> path"
  path_absolute :: "path \<Rightarrow> path"
  read_file :: "string \<Rightarrow> error + string"
  tmp_name :: string
  fromstring :: "string \<Rightarrow> error + xelt"
  ts_parse :: "string \<Rightarrow> node"

text \<open>
  What a run leaves behind: the lines printed (to standard output, or to the output file
  of the cross-product command) and the commands run, in order.
\<close>

datatype stream = Stdout | Outfile

datatype event = Print stream string | Run "string list"

type_synonym trace = "event list"

definition runs :: "trace \<Rightarrow> string list list" where
  "runs tr = concat (map (\<lambda>ev. case ev of Run args \<Rightarrow> [args] | Print s l \<Rightarrow> []) tr)"

text \<open>\<open>print_cmd\<close> reads \<open>args[0]\<close> before it prints: on an empty list it raises.\<close>

definition print_cmd :: "string list \<Rightarrow> error + trace" where
  "print_cmd args =
     (case args of
        [] \<Rightarrow> Inl IndexError
      | cmd # rest \<Rightarrow>
          Inr ([Print Stdout ''---------------'', Print Stdout cmd]
               @ map (\<lambda>arg. Print Stdout (''  '' @ arg)) rest
               @ [Print Stdout ''---------------'']))"

definition which_ensure :: "os \<Rightarrow> string \<Rightarrow> error + string" where
  "which_ensure os cmd =
     (case which os cmd of
        None \<Rightarrow> Inl (RuntimeError (''Unable to find `'' @ cmd @ ''` executable in PATH''))
      | Some cmd_path \<Rightarrow> Inr cmd_path)"

text \<open>
  The directories are collected in a Python set, whose iteration order is not fixed; the
  model lists them in order of first insertion.
\<close>

definition split_bins_and_dirs :: "os \<Rightarrow> path list \<Rightarrow> string \<times> string list" where
  "split_bins_and_dirs os raw_bins =
     (let bin_files = map (path_name os) raw_bins;
          bin_dirs = remdups (map (\<lambda>p. path_str os (path_parent os p)) raw_bins)
      in (join '','' bin_files, bin_dirs))"

text \<open>
  The argument \<open>bins\<close> of \<open>abidw\<close> as a Python object: a list of paths, or, as
  \<open>ABI.from_binaries\<close> passes it, the builtin function \<open>bin\<close>.
\<close>

datatype pyobj = PathList "path list" | BuiltinBin

definition run_logged :: "os \<Rightarrow> string list \<Rightarrow> trace \<Rightarrow> (error + completed) \<times> trace" where
  "run_logged os args tr = (run os (length (runs tr)) args, tr @ [Run args])"

definition abidw ::
  "os \<Rightarrow> pyobj \<Rightarrow> path option \<Rightarrow> bool \<Rightarrow> string list \<Rightarrow> trace \<Rightarrow> (error + completed) \<times> trace"
where
  "abidw os bins suppression_file show_cmd extra_args tr =
     (case bins of
        BuiltinBin \<Rightarrow>
          (Inl (TypeError ''cannot unpack non-iterable builtin_function_or_method object''), tr)
      | PathList [] \<Rightarrow>
          (Inl (ValueError ''not enough values to unpack (expected at least 1, got 0)''), tr)
      | PathList (bin # added_bins) \<Rightarrow>
          (let (added_bins_arg, added_dirs) = split_bins_and_dirs os added_bins in
           case which_ensure os ''abidw'' of
             Inl e \<Rightarrow> (Inl e, tr)
           | Inr cmd \<Rightarrow>
               (let args = [cmd] @ extra_args
                      @ (if length added_bins_arg > 0
                         then [''--add-binaries='' @ added_bins_arg] else [])
                      @ concat (map (\<lambda>d. [''--abd'', d]) added_dirs)
                      @ (case suppression_file of
                           None \<Rightarrow> []
                         | Some sf \<Rightarrow> [''--suppressions'', path_str os (path_absolute os sf)])
                      @ [path_str os bin]
                in case (if show_cmd then print_cmd args else Inr []) of
                     Inl e \<Rightarrow> (Inl e, tr)
                   | Inr shown \<Rightarrow> run_logged os args (tr @ shown))))"

definition abidiff ::
  "os \<Rightarrow> path list \<Rightarrow> path list \<Rightarrow> path option \<Rightarrow> bool \<Rightarrow> string list \<Rightarrow> trace
     \<Rightarrow> (error + completed \<times> string list) \<times> trace"
where
  "abidiff os bins1 bins2 suppression_file show_cmd extra_args tr =
     (case which_ensure os ''abidiff'' of
        Inl e \<Rightarrow> (Inl e, tr)
      | Inr cmd \<Rightarrow>
          (case bins1 of
             [] \<Rightarrow> (Inl IndexError, tr)
           | bin1 # rest1 \<Rightarrow>
               (case bins2 of
                  [] \<Rightarrow> (Inl IndexError, tr)
                | bin2 # rest2 \<Rightarrow>
                    (let (added_bins_arg1, added_dirs1) = split_bins_and_dirs os rest1;
                         (added_bins_arg2, added_dirs2) = split_bins_and_dirs os rest2;
                         args = [cmd] @ extra_args
                           @ (case suppression_file of
                                None \<Rightarrow> []
                              | Some sf \<Rightarrow> [''--suppr'', path_str os (path_absolute os sf)])
                           @ (if length added_bins_arg1 > 0
                              then [''--add-binaries1='' @ added_bins_arg1] else [])
                           @ (if length added_bins_arg2 > 0
                              then [''--add-binaries2='' @ added_bins_arg2] else [])
                           @ concat (map (\<lambda>d. [''--added-binaries-dir1'', d]) added_dirs1)
                           @ concat (map (\<lambda>d. [''--added-binaries-dir2'', d]) added_dirs2)
                           @ [path_str os (path_absolute os bin1),
                              path_str os (path_absolute os bin2)]
                     in case (if show_cmd then print_cmd args else Inr []) of
                          Inl e \<Rightarrow> (Inl e, tr)
                        | Inr shown \<Rightarrow>
                            (case run_logged os args (tr @ shown) of
                               (Inl e, tr2) \<Rightarrow> (Inl e, tr2)
                             | (Inr result, tr2) \<Rightarrow> (Inr (result, args), tr2))))))"

section \<open>abixml.py: the corpus model and its parser\<close>

definition xget :: "xelt \<Rightarrow> string \<Rightarrow> string option" where
  "xget xelt attr = map_of (attrib xelt) attr"

definition xkeys :: "xelt \<Rightarrow> string list" where
  "xkeys xelt = map fst (attrib xelt)"

definition findall :: "xelt \<Rightarrow> string \<Rightarrow> xelt list" where
  "findall xelt t = filter (\<lambda>c. tag c = t) (children xelt)"

definition find :: "xelt \<Rightarrow> string \<Rightarrow> xelt option" where
  "find xelt t = (case findall xelt t of [] \<Rightarrow> None | c # cs \<Rightarrow> Some c)"

definition get_or_fail :: "xelt \<Rightarrow> string \<Rightarrow> error + string" where
  "get_or_fail xelt attr =
     (case xget xelt attr of
        None \<Rightarrow> Inl (AttributeError attr (Keys (xkeys xelt)))
      | Some output \<Rightarrow> Inr output)"

definition find_or_fail :: "xelt \<Rightarrow> string \<Rightarrow> error + xelt" where
  "find_or_fail xelt n =
     (case find xelt n of
        None \<Rightarrow> Inl (AttributeError n (Elem xelt))
      | Some output \<Rightarrow> Inr output)"

text \<open>
  \<open>as_children\<close>: \<open>if parent:\<close> is false for \<open>None\<close> and for an element without
  children; otherwise every child with the class's tag is visited, in document order.
\<close>

definition as_children ::
  "string \<Rightarrow> (xelt \<Rightarrow> error + 'a) \<Rightarrow> xelt option \<Rightarrow> error + 'a list"
where
  "as_children abixml_tag from_xmlelt parent =
     (case parent of
        None \<Rightarrow> Inr []
      | Some p \<Rightarrow>
          (if children p = [] then Inr [] else emap from_xmlelt (findall p abixml_tag)))"

record Symbol =
  sym_name :: string
  sym_size :: int
  sym_typ :: string
  sym_binding :: string
  sym_visibility :: string
  sym_defined :: bool

definition Symbol_from_xmlelt :: "xelt \<Rightarrow> error + Symbol" where
  "Symbol_from_xmlelt xelt =
     ebind (get_or_fail xelt ''name'') (\<lambda>name.
     ebind (case xget xelt ''size'' of None \<Rightarrow> Inr 0 | Some s \<Rightarrow> py_int s) (\<lambda>sz.
     ebind (get_or_fail xelt ''type'') (\<lambda>typ.
     ebind (get_or_fail xelt ''binding'') (\<lambda>binding.
     ebind (get_or_fail xelt ''visibility'') (\<lambda>visibility.
     ebind (get_or_fail xelt ''is-defined'') (\<lambda>is_defined.
     Inr \<lparr>sym_name = name, sym_size = sz, sym_typ = typ, sym_binding = binding,
          sym_visibility = visibility, sym_defined = (is_defined = ''yes'')\<rparr>))))))"

record VarDecl =
  vd_name :: string
  vd_type_id :: string
  vd_visibility :: string
  vd_filepath :: "path option"

definition VarDecl_from_xmlelt :: "xelt \<Rightarrow> error + VarDecl" where
  "VarDecl_from_xmlelt xelt =
     (let filepath = map_option Path (xget xelt ''filepath'') in
      ebind (get_or_fail xelt ''name'') (\<lambda>name.
      ebind (get_or_fail xelt ''type-id'') (\<lambda>type_id.
      ebind (get_or_fail xelt ''visibility'') (\<lambda>visibility.
      Inr \<lparr>vd_name = name, vd_type_id = type_id, vd_visibility = visibility,
           vd_filepath = filepath\<rparr>))))"

record TypeDecl =
  tyd_name :: string
  tyd_size :: "int option"
  tyd_hash :: "string option"
  tyd_id :: string

definition TypeDecl_from_xmlelt :: "xelt \<Rightarrow> error + TypeDecl" where
  "TypeDecl_from_xmlelt xelt =
     ebind (case xget xelt ''size-in-bits'' of
              None \<Rightarrow> Inr None
            | Some s \<Rightarrow> map_sum (\<lambda>e. e) Some (py_int s)) (\<lambda>sz.
     ebind (get_or_fail xelt ''name'') (\<lambda>name.
     ebind (get_or_fail xelt ''id'') (\<lambda>ident.
     Inr \<lparr>tyd_name = name, tyd_size = sz, tyd_hash = xget xelt ''hash'', tyd_id = ident\<rparr>)))"

record Parameter =
  par_type_id :: "string option"
  par_name :: "string option"
  par_is_variadic :: bool

definition Parameter_from_xmlelt :: "xelt \<Rightarrow> error + Parameter" where
  "Parameter_from_xmlelt xelt =
     Inr \<lparr>par_type_id = xget xelt ''type-id'', par_name = xget xelt ''name'',
          par_is_variadic = (xget xelt ''is_variadic'' = Some ''yes'')\<rparr>"

record FunctionDecl =
  fd_name :: string
  fd_mangled_name :: "string option"
  fd_filepath :: "path option"
  fd_parameters :: "Parameter list"
  fd_return_type_id :: string

definition FunctionDecl_from_xmlelt :: "xelt \<Rightarrow> error + FunctionDecl" where
  "FunctionDecl_from_xmlelt xelt =
     (let filepath = map_option Path (xget xelt ''filepath'') in
      ebind (get_or_fail xelt ''name'') (\<lambda>name.
      ebind (as_children ''parameter'' Parameter_from_xmlelt (Some xelt)) (\<lambda>parameters.
      ebind (find_or_fail xelt ''return'') (\<lambda>ret.
      ebind (get_or_fail ret ''type-id'') (\<lambda>return_type_id.
      Inr \<lparr>fd_name = name, fd_mangled_name = xget xelt ''mangled-name'',
           fd_filepath = filepath, fd_parameters = parameters,
           fd_return_type_id = return_type_id\<rparr>)))))"

text \<open>\<open>"\n  ".join(["[suppress_function]", f"name = {self.name}"])\<close>\<close>

definition FunctionDecl_to_suppression :: "FunctionDecl \<Rightarrow> path \<Rightarrow> string" where
  "FunctionDecl_to_suppression self file =
     join [CHR 0x0A, CHR '' '', CHR '' '']
       [''[suppress_function]'', ''name = '' @ fd_name self]"

record DataMember =
  dm_access :: string
  dm_layout_offset :: int
  dm_decl :: "FunctionDecl + VarDecl"

definition DataMember_from_xmlelt :: "xelt \<Rightarrow> error + DataMember" where
  "DataMember_from_xmlelt xelt =
     ebind (case find xelt ''var-decl'' of
              None \<Rightarrow>
                ebind (find_or_fail xelt ''function-decl'') (\<lambda>decl_xml.
                map_sum (\<lambda>e. e) Inl (FunctionDecl_from_xmlelt decl_xml))
            | Some decl_xml \<Rightarrow> map_sum (\<lambda>e. e) Inr (VarDecl_from_xmlelt decl_xml)) (\<lambda>decl.
     ebind (get_or_fail xelt ''access'') (\<lambda>access.
     ebind (get_or_fail xelt ''layout-offset-in-bits'') (\<lambda>off_str.
     ebind (py_int off_str) (\<lambda>layout_offset.
     Inr \<lparr>dm_access = access, dm_layout_offset = layout_offset, dm_decl = decl\<rparr>))))"

record ClassDecl =
  cd_name :: string
  cd_is_struct :: bool
  cd_visibility :: string
  cd_size :: "int option"
  cd_filepath :: "path option"
  cd_hash :: "string option"
  cd_id :: string
  cd_data_members :: "DataMember list"

text \<open>
  Here the optional attributes are tested for truth, so an empty \<open>size-in-bits\<close> or
  \<open>filepath\<close> counts as absent.
\<close>

definition ClassDecl_from_xmlelt :: "xelt \<Rightarrow> error + ClassDecl" where
  "ClassDecl_from_xmlelt xelt =
     (let opt_size = xget xelt ''size-in-bits'';
          opt_path = xget xelt ''filepath'' in
      ebind (case opt_size of
               None \<Rightarrow> Inr None
             | Some s \<Rightarrow> (if s = [] then Inr None else map_sum (\<lambda>e. e) Some (py_int s))) (\<lambda>sz.
      (let filepath = (case opt_path of
                         None \<Rightarrow> None
                       | Some p \<Rightarrow> (if p = [] then None else Some (Path p))) in
       ebind (get_or_fail xelt ''name'') (\<lambda>name.
       ebind (get_or_fail xelt ''is-struct'') (\<lambda>is_struct.
       ebind (get_or_fail xelt ''visibility'') (\<lambda>visibility.
       ebind (get_or_fail xelt ''id'') (\<lambda>ident.
       ebind (as_children ''data-member'' DataMember_from_xmlelt (Some xelt)) (\<lambda>data_members.
       Inr \<lparr>cd_name = name, cd_is_struct = (is_struct = ''yes''),
            cd_visibility = visibility, cd_size = sz, cd_filepath = filepath,
            cd_hash = xget xelt ''hash'', cd_id = ident,
            cd_data_members = data_members\<rparr>))))))))"

definition ClassDecl_to_suppression :: "ClassDecl \<Rightarrow> path \<Rightarrow> string" where
  "ClassDecl_to_suppression self file =
     join [CHR 0x0A, CHR '' '', CHR '' '']
       [''[suppress_type]'', ''name = '' @ cd_name self]"

record TypedefDecl =
  td_name :: string
  td_member_id :: string
  td_type_id :: string
  td_filepath :: path

definition TypedefDecl_from_xmlelt :: "xelt \<Rightarrow> error + TypedefDecl" where
  "TypedefDecl_from_xmlelt xelt =
     ebind (get_or_fail xelt ''name'') (\<lambda>name.
     ebind (get_or_fail xelt ''type-id'') (\<lambda>member_id.
     ebind (get_or_fail xelt ''id'') (\<lambda>type_id.
     ebind (get_or_fail xelt ''filepath'') (\<lambda>filepath.
     Inr \<lparr>td_name = name, td_member_id = member_id, td_type_id = type_id,
          td_filepath = Path filepath\<rparr>))))"

definition TypedefDecl_to_suppression :: "TypedefDecl \<Rightarrow> path \<Rightarrow> string" where
  "TypedefDecl_to_suppression self file =
     join [CHR 0x0A, CHR '' '', CHR '' '']
       [''[suppress_type]'', ''name = '' @ td_name self]"

record ABI =
  abi_path :: path
  fun_symbols :: "Symbol list"
  var_symbols :: "Symbol list"
  type_decls :: "TypeDecl list"
  typedef_decls :: "TypedefDecl list"
  class_decls :: "ClassDecl list"
  fun_decls :: "FunctionDecl list"
  var_decls :: "VarDecl list"

text \<open>
  The body of the loop over the \<open>abi-instr\<close> elements of \<open>ABI.from_xml\<close>: the five
  accumulators are extended by the declarations of one element.
\<close>

type_synonym decl_lists =
  "TypeDecl list \<times> ClassDecl list \<times> FunctionDecl list \<times> TypedefDecl list \<times> VarDecl list"

definition from_xml_instr :: "decl_lists \<Rightarrow> xelt \<Rightarrow> error + decl_lists" where
  "from_xml_instr acc decls_root =
     (case acc of (tys, cls, fns, tds, vrs) \<Rightarrow>
      ebind (as_children ''type-decl'' TypeDecl_from_xmlelt (Some decls_root)) (\<lambda>ts.
      ebind (as_children ''class-decl'' ClassDecl_from_xmlelt (Some decls_root)) (\<lambda>cs.
      ebind (as_children ''function-decl'' FunctionDecl_from_xmlelt (Some decls_root)) (\<lambda>fs.
      ebind (as_children ''typedef-decl'' TypedefDecl_from_xmlelt (Some decls_root)) (\<lambda>ds.
      ebind (as_children ''var-decl'' VarDecl_from_xmlelt (Some decls_root)) (\<lambda>vs.
      Inr (tys @ ts, cls @ cs, fns @ fs, tds @ ds, vrs @ vs)))))))"

fun from_xml_loop :: "decl_lists \<Rightarrow> xelt list \<Rightarrow> error + decl_lists" where
  "from_xml_loop acc [] = Inr acc"
| "from_xml_loop acc (decls_root # rest) =
     (case from_xml_instr acc decls_root of
        Inl e \<Rightarrow> Inl e
      | Inr acc' \<Rightarrow> from_xml_loop acc' rest)"

text \<open>\<open>ABI.from_xml\<close>, from the root element that \<open>ET.fromstring\<close> returned.\<close>

definition from_xml_root :: "xelt \<Rightarrow> error + ABI" where
  "from_xml_root root =
     ebind (get_or_fail root ''path'') (\<lambda>p.
     ebind (find_or_fail root ''elf-function-symbols'') (\<lambda>fsyms.
     ebind (as_children ''elf-symbol'' Symbol_from_xmlelt (Some fsyms)) (\<lambda>fun_syms.
     ebind (as_children ''elf-symbol'' Symbol_from_xmlelt
              (find root ''elf-variable-symbols'')) (\<lambda>var_syms.
     ebind (from_xml_loop ([], [], [], [], []) (findall root ''abi-instr''))
       (\<lambda>(tys, cls, fns, tds, vrs).
     Inr \<lparr>abi_path = Path p, fun_symbols = fun_syms, var_symbols = var_syms,
          type_decls = tys, typedef_decls = tds, class_decls = cls, fun_decls = fns,
          var_decls = vrs\<rparr>)))))"

definition from_xml :: "os \<Rightarrow> string \<Rightarrow> error + ABI" where
  "from_xml os xml_str = ebind (fromstring os xml_str) from_xml_root"

text \<open>
  \<open>ABI.from_binaries\<close>. The call of \<open>abidw\<close> names \<open>bin\<close>, which in this scope is the
  builtin function, not the parameter \<open>bins\<close>.
\<close>

definition from_binaries ::
  "os \<Rightarrow> path list \<Rightarrow> path option \<Rightarrow> bool \<Rightarrow> string list \<Rightarrow> trace
     \<Rightarrow> (error + ABI \<times> string) \<times> trace"
where
  "from_binaries os bins suppression_file show_cmd extra_args tr =
     (case abidw os BuiltinBin suppression_file show_cmd extra_args tr of
        (Inl e, tr1) \<Rightarrow> (Inl e, tr1)
      | (Inr result, tr1) \<Rightarrow>
          (if returncode result \<noteq> 0
           then (Inl (RuntimeError (''abidw failed with the following stderr:''
                                     @ [CHR 0x0A] @ stderr result)), tr1)
           else (let xml_str = stdout result in
                 (map_sum (\<lambda>e. e) (\<lambda>abi. (abi, xml_str)) (from_xml os xml_str), tr1))))"

definition type_and_function_names :: "ABI \<Rightarrow> string list \<times> string list" where
  "type_and_function_names self =
     (let type_names = map cd_name (class_decls self) @ map td_name (typedef_decls self);
          func_names = map fd_name (fun_decls self)
      in (type_names, func_names))"

section \<open>common.py: what a resolved spec provides\<close>

text \<open>
  A Spack spec, as far as this program looks at it: how it prints, whether it is
  installed, and the libraries and headers of its build interface (\<open>spec[spec.name].libs\<close>
  and \<open>.headers\<close>, which Spack computes and which may raise).
\<close>

record spec =
  spec_str :: string
  installed :: bool
  libs :: "error + string list"
  headers :: "error + string list"

definition spec_to_build_interface :: "spec \<Rightarrow> error + spec" where
  "spec_to_build_interface sp =
     (if \<not> installed sp
      then Inl (SpackError (''Spec '' @ spec_str sp
                 @ '' must be installed to analyze ABI. Try `spack install` ''))
      else Inr sp)"

definition libs_for_spec :: "spec \<Rightarrow> error + path list" where
  "libs_for_spec sp =
     ebind (spec_to_build_interface sp) (\<lambda>spec_bi.
     ebind (libs spec_bi) (\<lambda>ls. Inr (map Path ls)))"

definition headers_for_spec :: "spec \<Rightarrow> error + path list" where
  "headers_for_spec sp =
     ebind (spec_to_build_interface sp) (\<lambda>spec_bi.
     ebind (headers spec_bi) (\<lambda>ls. Inr (map Path ls)))"

section \<open>parse\_headers.py: the declared surface of a header\<close>

datatype PreprocessorFlag = NEW_FILE | RETURNING_FILE | SYSTEM_FILE | EXTERN_TEXT

text \<open>\<open>PreprocessorFlag(n)\<close>: the member with value \<open>n\<close>, a \<open>ValueError\<close> if there is none.\<close>

definition PreprocessorFlag_of :: "int \<Rightarrow> error + PreprocessorFlag" where
  "PreprocessorFlag_of n =
     (if n = 1 then Inr NEW_FILE
      else if n = 2 then Inr RETURNING_FILE
      else if n = 3 then Inr SYSTEM_FILE
      else if n = 4 then Inr EXTERN_TEXT
      else Inl (ValueError ''not a valid PreprocessorFlag''))"

datatype SymbolType = TYPEDEF | FUNDEF | PTRDEF | EXTERNDEF | STRUCTDEF | ENUMDEF

text \<open>The class \<open>Symbol\<close> of parse\_headers.py (the corpus model has a class of that name too).\<close>

record HeaderSymbol =
  stype :: SymbolType
  symbol :: string

definition child_by_field_name :: "node \<Rightarrow> string \<Rightarrow> node option" where
  "child_by_field_name n f = map_of (nfields n) f"

text \<open>\<open>x.text\<close> and \<open>x.type\<close> where \<open>x\<close> may be \<open>None\<close>.\<close>

definition text_of :: "node option \<Rightarrow> error + string" where
  "text_of x =
     (case x of None \<Rightarrow> Inl (AttributeError ''text'' OnNone) | Some n \<Rightarrow> Inr (ntext n))"

definition type_of :: "node option \<Rightarrow> error + string" where
  "type_of x =
     (case x of None \<Rightarrow> Inl (AttributeError ''type'' OnNone) | Some n \<Rightarrow> Inr (ntype n))"

text \<open>
  The four node parsers return the symbol, or \<open>None\<close> where the source returns nothing,
  together with the lines they print.
\<close>

definition parse_type_definition :: "node \<Rightarrow> (error + HeaderSymbol option) \<times> trace" where
  "parse_type_definition n =
     (case child_by_field_name n ''declarator'' of
        None \<Rightarrow> (Inl (AssertionError []), [])
      | Some declarator \<Rightarrow>
          (if ntype declarator = ''function_declarator'' then
             (case child_by_field_name declarator ''declarator'' of
                None \<Rightarrow> (Inl (AssertionError []), [])
              | Some child_declarator \<Rightarrow>
                  (if ntype child_declarator \<noteq> ''parenthesized_declarator''
                   then (Inl (AssertionError []), [])
                   else (Inr (Some \<lparr>stype = TYPEDEF,
                                     symbol = slice_1_m1 (ntext child_declarator)\<rparr>), [])))
           else if ntype declarator = ''type_identifier'' then
             (Inr (Some \<lparr>stype = TYPEDEF, symbol = ntext declarator\<rparr>), [])
           else if ntype declarator = ''pointer_declarator'' then
             (ebind (text_of (child_by_field_name declarator ''declarator''))
                (\<lambda>t. Inr (Some \<lparr>stype = TYPEDEF, symbol = t\<rparr>)), [])
           else
             (Inr None,
              [Print Stdout (''Unhandled declarator in _parse_type_definition: ''
                             @ ntype declarator)])))"

definition parse_declaration :: "node \<Rightarrow> (error + HeaderSymbol option) \<times> trace" where
  "parse_declaration n =
     (case child_by_field_name n ''declarator'' of
        None \<Rightarrow> (Inl (AssertionError []), [])
      | Some declarator \<Rightarrow>
          (if ntype declarator = ''function_declarator'' then
             (let name_node = child_by_field_name declarator ''declarator'' in
              (ebind (type_of name_node) (\<lambda>ty.
                 if ty \<noteq> ''identifier'' then Inl (AssertionError (''Got '' @ ty))
                 else ebind (text_of name_node)
                        (\<lambda>t. Inr (Some \<lparr>stype = FUNDEF, symbol = t\<rparr>))), []))
           else if ntype declarator = ''pointer_declarator'' then
             (ebind (text_of (child_by_field_name declarator ''declarator''))
                (\<lambda>t. Inr (Some \<lparr>stype = PTRDEF, symbol = t\<rparr>)), [])
           else if ntype declarator = ''identifier'' then
             (Inr (Some \<lparr>stype = EXTERNDEF, symbol = ntext declarator\<rparr>), [])
           else if ntype declarator = ''array_declarator'' then
             (ebind (text_of (child_by_field_name declarator ''declarator''))
                (\<lambda>t. Inr (Some \<lparr>stype = EXTERNDEF, symbol = t\<rparr>)), [])
           else
             (Inr None,
              [Print Stdout (''Unhandled declarator in _parse_declaration: ''
                             @ ntype declarator)])))"

definition parse_struct_specifier :: "node \<Rightarrow> (error + HeaderSymbol option) \<times> trace" where
  "parse_struct_specifier n =
     (ebind (text_of (child_by_field_name n ''name''))
        (\<lambda>t. Inr (Some \<lparr>stype = STRUCTDEF, symbol = t\<rparr>)), [])"

text \<open>Here alone the read is wrapped in \<open>try\<close>: any error makes the function return nothing.\<close>

definition parse_enum_specifier :: "node \<Rightarrow> (error + HeaderSymbol option) \<times> trace" where
  "parse_enum_specifier n =
     (case text_of (child_by_field_name n ''name'') of
        Inl e \<Rightarrow> (Inr None, [])
      | Inr t \<Rightarrow> (Inr (Some \<lparr>stype = ENUMDEF, symbol = t\<rparr>), []))"

record HeaderBlock =
  block_file :: path
  flags :: "PreprocessorFlag list"
  block_text :: string

text \<open>
  One round of the loop of \<open>HeaderBlock.parse\<close>: what is appended to \<open>parsed\<close> for the
  node under the cursor (nothing, \<open>None\<close> or a symbol) and what is printed.
\<close>

definition appended ::
  "(error + HeaderSymbol option) \<times> trace \<Rightarrow> (error + HeaderSymbol option list) \<times> trace"
where
  "appended r = (case r of (Inl e, out) \<Rightarrow> (Inl e, out) | (Inr p, out) \<Rightarrow> (Inr [p], out))"

definition parse_node :: "node \<Rightarrow> (error + HeaderSymbol option list) \<times> trace" where
  "parse_node n =
     (if ntype n = ''type_definition'' then appended (parse_type_definition n)
      else if ntype n = ''declaration'' then appended (parse_declaration n)
      else if ntype n = ''struct_specifier'' then appended (parse_struct_specifier n)
      else if ntype n = ''enum_specifier'' then appended (parse_enum_specifier n)
      else if ntype n = '';'' then (Inr [], [])
      else (Inr [], [Print Stdout (''Unhandled node: '' @ ntype n)]))"

fun parse_loop ::
  "node list \<Rightarrow> HeaderSymbol option list \<Rightarrow> trace
     \<Rightarrow> (error + HeaderSymbol option list) \<times> trace"
where
  "parse_loop [] parsed tr = (Inr parsed, tr)"
| "parse_loop (n # ns) parsed tr =
     (case parse_node n of
        (Inl e, out) \<Rightarrow> (Inl e, tr @ out)
      | (Inr ps, out) \<Rightarrow> parse_loop ns (parsed @ ps) (tr @ out))"

text \<open>
  The cursor starts at the root and moves to its first child; when the root has no child
  it stays there, and the root itself is the one node visited.
\<close>

definition not_none :: "'a option list \<Rightarrow> 'a list" where
  "not_none parsed = concat (map (\<lambda>p. case p of None \<Rightarrow> [] | Some s \<Rightarrow> [s]) parsed)"

definition HeaderBlock_parse ::
  "os \<Rightarrow> HeaderBlock \<Rightarrow> trace \<Rightarrow> (error + HeaderSymbol list) \<times> trace"
where
  "HeaderBlock_parse os self tr =
     (let root = ts_parse os (block_text self);
          nodes = (if nchildren root = [] then [root] else nchildren root)
      in case parse_loop nodes [] tr of
           (Inl e, tr1) \<Rightarrow> (Inl e, tr1)
         | (Inr parsed, tr1) \<Rightarrow> (Inr (not_none parsed), tr1))"

definition parse_file_line :: "string \<Rightarrow> error + path \<times> PreprocessorFlag list" where
  "parse_file_line line =
     (case split_ws line of
        a # b # filepath_quoted # fls \<Rightarrow>
          ebind (emap (\<lambda>f. ebind (py_int f) PreprocessorFlag_of) fls) (\<lambda>parsed_flags.
          Inr (Path (slice_1_m1 filepath_quoted), parsed_flags))
      | _ \<Rightarrow> Inl (ValueError ''not enough values to unpack (expected at least 3)''))"

text \<open>
  The generator \<open>_parse_blocks\<close>, run to its end: the blocks it yields, or the error
  that ends it. \<open>acc\<close> holds the blocks yielded so far.
\<close>

fun parse_blocks_loop ::
  "string list \<Rightarrow> string list \<Rightarrow> (path \<times> PreprocessorFlag list) option \<Rightarrow> HeaderBlock list
     \<Rightarrow> error + HeaderBlock list"
where
  "parse_blocks_loop [] curr_block_text curr_header acc =
     (case curr_header of
        None \<Rightarrow> Inl (TypeError ''argument after * must be an iterable, not NoneType'')
      | Some (f, fl) \<Rightarrow>
          Inr (acc @ [\<lparr>block_file = f, flags = fl,
                      block_text = join [CHR 0x0A] curr_block_text\<rparr>]))"
| "parse_blocks_loop (line # rest) curr_block_text curr_header acc =
     (if startswith line ''#'' then
        (case curr_header of
           None \<Rightarrow>
             (case parse_file_line line of
                Inl e \<Rightarrow> Inl e
              | Inr h \<Rightarrow> parse_blocks_loop rest curr_block_text (Some h) acc)
         | Some (f, fl) \<Rightarrow>
             (case parse_file_line line of
                Inl e \<Rightarrow> Inl e
              | Inr h \<Rightarrow>
                  parse_blocks_loop rest [] (Some h)
                    (acc @ [\<lparr>block_file = f, flags = fl,
                             block_text = join [CHR 0x0A] curr_block_text\<rparr>])))
      else if \<not> (isspace line \<or> length line = 0)
      then parse_blocks_loop rest (curr_block_text @ [line]) curr_header acc
      else parse_blocks_loop rest curr_block_text curr_header acc)"

definition parse_blocks :: "string \<Rightarrow> error + HeaderBlock list" where
  "parse_blocks header_text = parse_blocks_loop (split_nl header_text) [] None []"

definition run_preproc :: "os \<Rightarrow> path \<Rightarrow> trace \<Rightarrow> (error + string) \<times> trace" where
  "run_preproc os header_file tr =
     (case run_logged os [''gcc'', ''-E'', path_str os header_file] tr of
        (Inl e, tr1) \<Rightarrow> (Inl e, tr1)
      | (Inr result, tr1) \<Rightarrow>
          (if returncode result \<noteq> 0
           then (Inl (RuntimeError (''GCC preprocessor failed on '' @ path_str os header_file
                       @ '' with stderr:'' @ [CHR 0x0A] @ stderr result)), tr1)
           else (Inr (stdout result), tr1)))"

type_synonym surface = "HeaderSymbol list \<times> HeaderSymbol list \<times> HeaderSymbol list"

text \<open>
  \<open>_separate_symbols\<close>, on the triple (types, functions, variables) that \<open>parse_header\<close>
  returns.
\<close>

fun separate_symbols :: "surface \<Rightarrow> HeaderSymbol list \<Rightarrow> surface" where
  "separate_symbols acc [] = acc"
| "separate_symbols (type_syms, func_syms, var_syms) (s # syms) =
     (case stype s of
        FUNDEF \<Rightarrow> separate_symbols (type_syms, func_syms @ [s], var_syms) syms
      | EXTERNDEF \<Rightarrow> separate_symbols (type_syms, func_syms, var_syms @ [s]) syms
      | _ \<Rightarrow> separate_symbols (type_syms @ [s], func_syms, var_syms) syms)"

text \<open>The filter of \<open>parse_header\<close> on the blocks.\<close>

definition keeps_block :: "HeaderBlock \<Rightarrow> bool" where
  "keeps_block b = (length (block_text b) > 0 \<and> SYSTEM_FILE \<notin> set (flags b))"

fun parse_header_blocks ::
  "os \<Rightarrow> HeaderBlock list \<Rightarrow> surface \<Rightarrow> trace \<Rightarrow> (error + surface) \<times> trace"
where
  "parse_header_blocks os [] acc tr = (Inr acc, tr)"
| "parse_header_blocks os (b # bs) acc tr =
     (case HeaderBlock_parse os b tr of
        (Inl e, tr1) \<Rightarrow> (Inl e, tr1)
      | (Inr syms, tr1) \<Rightarrow> parse_header_blocks os bs (separate_symbols acc syms) tr1)"

text \<open>\<open>parse_header\<close> from the preprocessed text on.\<close>

definition parse_header_text :: "os \<Rightarrow> string \<Rightarrow> trace \<Rightarrow> (error + surface) \<times> trace" where
  "parse_header_text os header_text tr =
     (case parse_blocks header_text of
        Inl e \<Rightarrow> (Inl e, tr)
      | Inr all_blocks \<Rightarrow> parse_header_blocks os (filter keeps_block all_blocks) ([], [], []) tr)"

definition parse_header :: "os \<Rightarrow> path \<Rightarrow> trace \<Rightarrow> (error + surface) \<times> trace" where
  "parse_header os header_file tr =
     (case run_preproc os header_file tr of
        (Inl e, tr1) \<Rightarrow> (Inl e, tr1)
      | (Inr header_text, tr1) \<Rightarrow> parse_header_text os header_text tr1)"

section \<open>suppress.py: the suppression generator\<close>

text \<open>
  \<open>suppression_for_binaries_from_header\<close> after its first two lines, which obtain the
  corpus and the header surface: the reconciliation of the two. \<open>private_types\<close> holds
  class and typedef declarations; \<open>to_suppression\<close> is the method of the object's class.
\<close>

definition private_types :: "ABI \<Rightarrow> string list \<Rightarrow> (ClassDecl + TypedefDecl) list" where
  "private_types abi header_type_symbols =
     map Inl (filter (\<lambda>cd. cd_name cd \<notin> set header_type_symbols) (class_decls abi))
     @ map Inr (filter (\<lambda>td. td_name td \<notin> set header_type_symbols) (typedef_decls abi))"

definition private_funcs :: "ABI \<Rightarrow> string list \<Rightarrow> FunctionDecl list" where
  "private_funcs abi header_function_symbols =
     filter (\<lambda>fd. fd_name fd \<notin> set header_function_symbols) (fun_decls abi)"

definition type_suppressions :: "ABI \<Rightarrow> string list \<Rightarrow> string list" where
  "type_suppressions abi header_type_symbols =
     map (\<lambda>t. case t of
                 Inl cd \<Rightarrow> ClassDecl_to_suppression cd (abi_path abi)
               | Inr td \<Rightarrow> TypedefDecl_to_suppression td (abi_path abi))
       (private_types abi header_type_symbols)"

definition func_suppressions :: "ABI \<Rightarrow> string list \<Rightarrow> string list" where
  "func_suppressions abi header_function_symbols =
     map (\<lambda>f. FunctionDecl_to_suppression f (abi_path abi))
       (private_funcs abi header_function_symbols)"

definition suppression_text :: "ABI \<Rightarrow> surface \<Rightarrow> string" where
  "suppression_text abi hdr =
     (case hdr of (header_types, header_functions, header_vars) \<Rightarrow>
        (let header_type_symbols = map symbol header_types;
             header_function_symbols = map symbol header_functions
         in join [CHR 0x0A]
              (type_suppressions abi header_type_symbols
               @ func_suppressions abi header_function_symbols)))"

definition suppression_for_binaries_from_header ::
  "os \<Rightarrow> path list \<Rightarrow> path \<Rightarrow> trace \<Rightarrow> (error + string) \<times> trace"
where
  "suppression_for_binaries_from_header os binaries header tr =
     (case from_binaries os binaries None False [] tr of
        (Inl e, tr1) \<Rightarrow> (Inl e, tr1)
      | (Inr (abi, xml_str), tr1) \<Rightarrow>
          (case parse_header os header tr1 of
             (Inl e, tr2) \<Rightarrow> (Inl e, tr2)
           | (Inr hdr, tr2) \<Rightarrow> (Inr (suppression_text abi hdr), tr2)))"

section \<open>diff.py: one comparison\<close>

text \<open>The truth value of an optional string: \<open>None\<close> and the empty string are false.\<close>

definition truthy :: "string option \<Rightarrow> bool" where
  "truthy x = (case x of None \<Rightarrow> False | Some s \<Rightarrow> s \<noteq> [])"

text \<open>The suppression text of one side of \<open>diff_specs\<close>.\<close>

definition spec_suppression ::
  "os \<Rightarrow> spec \<Rightarrow> path list \<Rightarrow> string option \<Rightarrow> string option \<Rightarrow> trace
     \<Rightarrow> (error + string) \<times> trace"
where
  "spec_suppression os sp spec_libs header suppr tr =
     (if truthy header then
        (case headers_for_spec sp of
           Inl e \<Rightarrow> (Inl e, tr)
         | Inr hs \<Rightarrow>
             (case filter (\<lambda>h. Some (path_name os h) = header) hs of
                [] \<Rightarrow> (Inl IndexError, tr)
              | spec_header # others \<Rightarrow>
                  suppression_for_binaries_from_header os spec_libs spec_header tr))
      else if truthy suppr then (read_file os (the suppr), tr)
      else (Inr [], tr))"

text \<open>
  \<open>diff_specs\<close> has no \<open>return\<close> statement: when it does not raise, its value is
  \<open>None\<close>, written \<^term>\<open>None\<close> here; a value \<open>Some (result, args)\<close> would be a pair.
  The test of the usage-error bit compares \<open>returncode & 2\<close> with \<open>1\<close>.
\<close>

definition diff_specs ::
  "os \<Rightarrow> spec \<Rightarrow> spec \<Rightarrow> string option \<Rightarrow> string option \<Rightarrow> string option \<Rightarrow> string option
     \<Rightarrow> bool \<Rightarrow> string list \<Rightarrow> trace
     \<Rightarrow> (error + (completed \<times> string list) option) \<times> trace"
where
  "diff_specs os spec1 spec2 header1 suppr1 header2 suppr2 show_cmd extra_args tr =
     (case libs_for_spec spec1 of
        Inl e \<Rightarrow> (Inl e, tr)
      | Inr spec1_libs \<Rightarrow>
     (case libs_for_spec spec2 of
        Inl e \<Rightarrow> (Inl e, tr)
      | Inr spec2_libs \<Rightarrow>
     (case spec_suppression os spec1 spec1_libs header1 suppr1 tr of
        (Inl e, tr1) \<Rightarrow> (Inl e, tr1)
      | (Inr spec1_suppression, tr1) \<Rightarrow>
     (case spec_suppression os spec2 spec2_libs header2 suppr2 tr1 of
        (Inl e, tr2) \<Rightarrow> (Inl e, tr2)
      | (Inr spec2_suppression, tr2) \<Rightarrow>
          (let suppression_txt = spec1_suppression @ spec2_suppression;
               suppression_file =
                 (if length suppression_txt \<noteq> 0 then Some (Path (tmp_name os)) else None)
           in case abidiff os spec1_libs spec2_libs suppression_file show_cmd extra_args tr2 of
                (Inl e, tr3) \<Rightarrow> (Inl e, tr3)
              | (Inr (result, args), tr3) \<Rightarrow>
                  (if (returncode result AND USAGE_ERROR) = 1
                   then
                     (let tr4 = tr3 @ [Print Stdout
                           ''There was an error in running `abidiff`, below is the underlying command:'']
                      in case print_cmd args of
                           Inl e \<Rightarrow> (Inl e, tr4)
                         | Inr shown \<Rightarrow>
                             (Inr None,
                              tr4 @ shown @ [Print Stdout (''STDERR: '' @ stderr result)]))
                   else (Inr None,
                         tr3 @ [Print Stdout (stdout result),
                                Print Stdout (stderr result)])))))))"

section \<open>diff\_product.py: the classifier and the cross-product sweep\<close>

datatype AbiDiffType = NONE | HARMLESS | HARMFUL | ERROR

definition return_code_to_diff_type :: "int \<Rightarrow> AbiDiffType" where
  "return_code_to_diff_type rc =
     (if rc = 0 then NONE
      else if (rc AND ABI_CHANGE) = ABI_CHANGE then
        (if (rc AND INCOMPATIBLE_CHANGE) = 0 then HARMLESS else HARMFUL)
      else ERROR)"

definition cross_product_self :: "'a list \<Rightarrow> ('a \<times> 'a) list" where
  "cross_product_self lst =
     [(elt1, elt2). (i, elt1) \<leftarrow> enumerate 0 lst, (j, elt2) \<leftarrow> enumerate 0 lst, i \<noteq> j]"

text \<open>\<open>str\<close> of a member of \<open>AbiDiffType\<close>.\<close>

definition diff_type_str :: "AbiDiffType \<Rightarrow> string" where
  "diff_type_str d =
     (case d of
        NONE \<Rightarrow> ''AbiDiffType.NONE''
      | HARMLESS \<Rightarrow> ''AbiDiffType.HARMLESS''
      | HARMFUL \<Rightarrow> ''AbiDiffType.HARMFUL''
      | ERROR \<Rightarrow> ''AbiDiffType.ERROR'')"

text \<open>
  The comparison of one pair, as the loop of \<open>DiffProductCmd.cmd\<close> sees it: two concrete
  specs and the trace so far give an error, or the value that is unpacked into
  \<open>result, abidiff_args\<close>, and the new trace.
\<close>

type_synonym differ =
  "spec \<Rightarrow> spec \<Rightarrow> trace \<Rightarrow> (error + (completed \<times> string list) option) \<times> trace"

text \<open>
  What is printed for a pair once its comparison has been unpacked, and the error that
  \<open>print_cmd\<close> may raise on the way.
\<close>

definition render ::
  "string \<Rightarrow> stream \<Rightarrow> (spec \<times> spec) \<times> (spec \<times> spec) \<Rightarrow> completed \<Rightarrow> string list
     \<Rightarrow> error option \<times> trace"
where
  "render output_format outfile pair result abidiff_args =
     (case pair of ((u1, c1), (u2, c2)) \<Rightarrow>
      (let diff_type = return_code_to_diff_type (returncode result) in
       if output_format = ''can_splice'' then
         (case diff_type of
            NONE \<Rightarrow>
              (None,
               [Print outfile (''can_splice('' @ [CHR 0x22] @ spec_str u1 @ [CHR 0x22]
                               @ '', when='' @ [CHR 0x22] @ spec_str u2 @ [CHR 0x22]
                               @ '') #'' @ diff_type_str diff_type)])
          | HARMLESS \<Rightarrow>
              (None,
               [Print outfile (''can_splice('' @ [CHR 0x22] @ spec_str u1 @ [CHR 0x22]
                               @ '', when='' @ [CHR 0x22] @ spec_str u2 @ [CHR 0x22]
                               @ '') #'' @ diff_type_str diff_type)])
          | HARMFUL \<Rightarrow>
              (None, [Print Stdout (''# No splice '' @ spec_str u1 @ '' and '' @ spec_str u2)])
          | ERROR \<Rightarrow>
              (let said = [Print Stdout (''abidiff reported a usage error when comparing ''
                                         @ spec_str u1 @ '' and '' @ spec_str u2)]
               in case print_cmd abidiff_args of
                    Inl e \<Rightarrow> (Some e, said)
                  | Inr shown \<Rightarrow> (None, said @ shown)))
       else if output_format = ''summary'' then (None, [])
       else
         (None,
          [Print outfile (''Comparing '' @ spec_str u1 @ '','' @ spec_str c1 @ '' to ''
                          @ spec_str u2 @ '','' @ spec_str c2),
           Print outfile (stdout result),
           Print Stdout (stderr result)])))"

text \<open>
  The body of the loop of \<open>DiffProductCmd.cmd\<close> for one pair: the comparison, the
  unpacking of its value (which fails on \<open>None\<close>), the classification and the rendering.
\<close>

definition cmd_body ::
  "differ \<Rightarrow> string \<Rightarrow> stream \<Rightarrow> (spec \<times> spec) \<times> (spec \<times> spec) \<Rightarrow> trace
     \<Rightarrow> error option \<times> trace"
where
  "cmd_body ds output_format outfile pair tr =
     (case ds (snd (fst pair)) (snd (snd pair)) tr of
        (Inl e, tr1) \<Rightarrow> (Some e, tr1)
      | (Inr None, tr1) \<Rightarrow>
          (Some (TypeError ''cannot unpack non-iterable NoneType object''), tr1)
      | (Inr (Some (result, abidiff_args)), tr1) \<Rightarrow>
          (case render output_format outfile pair result abidiff_args of
             (r, out) \<Rightarrow> (r, tr1 @ out)))"

text \<open>The \<open>for\<close> loop: an error in the body ends it, as nothing in the loop catches one.\<close>

fun cmd_loop ::
  "differ \<Rightarrow> string \<Rightarrow> stream \<Rightarrow> ((spec \<times> spec) \<times> (spec \<times> spec)) list \<Rightarrow> trace
     \<Rightarrow> error option \<times> trace"
where
  "cmd_loop ds output_format outfile [] tr = (None, tr)"
| "cmd_loop ds output_format outfile (pair # rest) tr =
     (case cmd_body ds output_format outfile pair tr of
        (Some e, tr1) \<Rightarrow> (Some e, tr1)
      | (None, tr1) \<Rightarrow> cmd_loop ds output_format outfile rest tr1)"

text \<open>
  \<open>DiffProductCmd.cmd\<close> from \<open>list(env.concretized_specs())\<close> on (pairs of a user spec
  and its concrete spec); the loop calls \<open>diff_specs\<close> with its default arguments.
\<close>

definition DiffProductCmd_cmd ::
  "os \<Rightarrow> string \<Rightarrow> string option \<Rightarrow> (spec \<times> spec) list \<Rightarrow> trace \<Rightarrow> error option \<times> trace"
where
  "DiffProductCmd_cmd os output_format output_file concretized_specs tr =
     (let comparisons = cross_product_self concretized_specs;
          outfile = (if truthy output_file then Outfile else Stdout)
      in cmd_loop (\<lambda>c1 c2. diff_specs os c1 c2 None None None None False [])
           output_format outfile comparisons tr)"

section \<open>What the corpus format requires\<close>

text \<open>
  The required attributes and children of the corpus text, as the data model and the
  interface description of the specification list them, over the elements that a parse
  visits: the attributes an element of a given tag must carry, and the children it must
  have. These predicates say when something required is missing; they are compared with
  the parser below.
\<close>

definition required_attrs :: "string \<Rightarrow> string list" where
  "required_attrs t =
     (if t = ''elf-symbol'' then [''name'', ''type'', ''binding'', ''visibility'', ''is-defined'']
      else if t = ''type-decl'' then [''name'', ''id'']
      else if t = ''var-decl'' then [''name'', ''type-id'', ''visibility'']
      else if t = ''function-decl'' then [''name'']
      else if t = ''return'' then [''type-id'']
      else if t = ''data-member'' then [''access'', ''layout-offset-in-bits'']
      else if t = ''class-decl'' then [''name'', ''is-struct'', ''visibility'', ''id'']
      else if t = ''typedef-decl'' then [''name'', ''type-id'', ''id'', ''filepath'']
      else [])"

definition lacks_attr :: "xelt \<Rightarrow> bool" where
  "lacks_attr x = list_ex (\<lambda>a. xget x a = None) (required_attrs (tag x))"

definition function_decl_lacks :: "xelt \<Rightarrow> bool" where
  "function_decl_lacks f =
     (lacks_attr f \<or> (case find f ''return'' of None \<Rightarrow> True | Some r \<Rightarrow> lacks_attr r))"

definition data_member_lacks :: "xelt \<Rightarrow> bool" where
  "data_member_lacks m =
     (lacks_attr m
      \<or> (case find m ''var-decl'' of
            Some v \<Rightarrow> lacks_attr v
          | None \<Rightarrow>
              (case find m ''function-decl'' of
                 None \<Rightarrow> True
               | Some f \<Rightarrow> function_decl_lacks f)))"

definition class_decl_lacks :: "xelt \<Rightarrow> bool" where
  "class_decl_lacks c =
     (lacks_attr c \<or> list_ex data_member_lacks (findall c ''data-member''))"

definition abi_instr_lacks :: "xelt \<Rightarrow> bool" where
  "abi_instr_lacks i =
     (list_ex lacks_attr (findall i ''type-decl'')
      \<or> list_ex class_decl_lacks (findall i ''class-decl'')
      \<or> list_ex function_decl_lacks (findall i ''function-decl'')
      \<or> list_ex lacks_attr (findall i ''typedef-decl'')
      \<or> list_ex lacks_attr (findall i ''var-decl''))"

definition corpus_lacks :: "xelt \<Rightarrow> bool" where
  "corpus_lacks root =
     (xget root ''path'' = None
      \<or> (case find root ''elf-function-symbols'' of
            None \<Rightarrow> True
          | Some s \<Rightarrow> list_ex lacks_attr (findall s ''elf-symbol''))
      \<or> (case find root ''elf-variable-symbols'' of
            None \<Rightarrow> False
          | Some s \<Rightarrow> list_ex lacks_attr (findall s ''elf-symbol''))
      \<or> list_ex abi_instr_lacks (findall root ''abi-instr''))"

section \<open>Example inputs\<close>

text \<open>
  The corpus of the specification's example: a class \<open>Widget\<close> and a function
  \<open>widget_free\<close>.
\<close>

definition widget_abi :: ABI where
  "widget_abi =
     \<lparr>abi_path = Path ''libwidget.so'', fun_symbols = [], var_symbols = [], type_decls = [],
      typedef_decls = [],
      class_decls =
        [\<lparr>cd_name = ''Widget'', cd_is_struct = True, cd_visibility = ''default'',
          cd_size = None, cd_filepath = None, cd_hash = None, cd_id = ''t1'',
          cd_data_members = []\<rparr>],
      fun_decls =
        [\<lparr>fd_name = ''widget_free'', fd_mangled_name = None, fd_filepath = None,
          fd_parameters = [], fd_return_type_id = ''t2''\<rparr>],
      var_decls = []\<rparr>"

definition widget_type :: HeaderSymbol where
  "widget_type = \<lparr>stype = STRUCTDEF, symbol = ''Widget''\<rparr>"

definition widget_free_fun :: HeaderSymbol where
  "widget_free_fun = \<lparr>stype = FUNDEF, symbol = ''widget_free''\<rparr>"

text \<open>
  A corpus document whose one class declaration has no \<open>id\<close>, and that class element
  alone.
\<close>

definition widget_class_no_id :: xelt where
  "widget_class_no_id =
     Element ''class-decl''
       [(''name'', ''Widget''), (''is-struct'', ''yes''), (''visibility'', ''default'')] []"

definition corpus_no_id :: xelt where
  "corpus_no_id =
     Element ''abi-corpus'' [(''path'', ''libwidget.so'')]
       [Element ''elf-function-symbols'' []
          [Element ''elf-symbol''
             [(''name'', ''widget_free''), (''type'', ''func-type''),
              (''binding'', ''global-binding''), (''visibility'', ''default-visibility''),
              (''is-defined'', ''yes'')] []],
        Element ''abi-instr'' [] [widget_class_no_id]]"

text \<open>
  Syntax trees as tree-sitter builds them for \<open>int widget_free();\<close>, \<open>int printf();\<close> and
  \<open>typedef int fn_t(int);\<close> (field children only), and surroundings in which every
  command is found and exits with code 2, every corpus text parses to the document above,
  and the C parser knows these three texts.
\<close>

definition fun_declaration :: "string \<Rightarrow> node" where
  "fun_declaration name =
     Node ''declaration'' (''int '' @ name @ ''();'')
       [(''type'', Node ''primitive_type'' ''int'' [] []),
        (''declarator'',
         Node ''function_declarator'' (name @ ''()'')
           [(''declarator'', Node ''identifier'' name [] []),
            (''parameters'', Node ''parameter_list'' ''()'' [] [])] [])] []"

definition fn_typedef :: node where
  "fn_typedef =
     Node ''type_definition'' ''typedef int fn_t(int);''
       [(''type'', Node ''primitive_type'' ''int'' [] []),
        (''declarator'',
         Node ''function_declarator'' ''fn_t(int)''
           [(''declarator'', Node ''type_identifier'' ''fn_t'' [] []),
            (''parameters'', Node ''parameter_list'' ''(int)'' [] [])] [])] []"

definition example_os :: os where
  "example_os =
     \<lparr>which = (\<lambda>cmd. Some (''/usr/bin/'' @ cmd)),
      run = (\<lambda>n args. Inr \<lparr>returncode = 2, stdout = [], stderr = ''usage''\<rparr>),
      path_str = (\<lambda>p. case p of Path s \<Rightarrow> s),
      path_name = (\<lambda>p. case p of Path s \<Rightarrow> s),
      path_parent = (\<lambda>p. Path ''.''),
      path_absolute = (\<lambda>p. p),
      read_file = (\<lambda>f. Inl (OSError f)),
      tmp_name = ''/tmp/tmp0'',
      fromstring = (\<lambda>s. Inr corpus_no_id),
      ts_parse = (\<lambda>s.
        if s = ''int widget_free();''
        then Node ''translation_unit'' s [] [fun_declaration ''widget_free'']
        else if s = ''int printf();''
        then Node ''translation_unit'' s [] [fun_declaration ''printf'']
        else if s = ''typedef int fn_t(int);''
        then Node ''translation_unit'' s [] [fn_typedef]
        else Node ''translation_unit'' s [] [])\<rparr>"


definition widget_marker :: string where
  "widget_marker = ''# 2 '' @ [CHR 0x22] @ ''widget.h'' @ [CHR 0x22] @ '' 2''"

text \<open>
  Top-level nodes: a bare terminator, \<open>typedef int arr_t[3];\<close> (an array declarator),
  \<open>int x = 3;\<close> (an init declarator), an enum without a name, a preprocessor call, and
  \<open>int (*get(void))(int);\<close> (a function declarator around a parenthesized one).
\<close>

definition semicolon_node :: node where
  "semicolon_node = Node '';'' '';'' [] []"

definition array_typedef :: node where
  "array_typedef =
     Node ''type_definition'' ''typedef int arr_t[3];''
       [(''type'', Node ''primitive_type'' ''int'' [] []),
        (''declarator'',
         Node ''array_declarator'' ''arr_t[3]''
           [(''declarator'', Node ''type_identifier'' ''arr_t'' [] [])] [])] []"

definition init_declaration :: node where
  "init_declaration =
     Node ''declaration'' ''int x = 3;''
       [(''type'', Node ''primitive_type'' ''int'' [] []),
        (''declarator'',
         Node ''init_declarator'' ''x = 3''
           [(''declarator'', Node ''identifier'' ''x'' [] [])] [])] []"

definition anonymous_enum :: node where
  "anonymous_enum =
     Node ''enum_specifier'' ''enum { A, B }''
       [(''body'', Node ''enumerator_list'' ''{ A, B }'' [] [])] []"

definition pragma_node :: node where
  "pragma_node = Node ''preproc_call'' ''#pragma once'' [] []"

definition fn_returning_fn :: node where
  "fn_returning_fn =
     Node ''declaration'' ''int (*get(void))(int);''
       [(''type'', Node ''primitive_type'' ''int'' [] []),
        (''declarator'',
         Node ''function_declarator'' ''(*get(void))(int)''
           [(''declarator'', Node ''parenthesized_declarator'' ''(*get(void))'' [] [])] [])] []"

definition no_declarator :: node where
  "no_declarator =
     Node ''declaration'' ''int;'' [(''type'', Node ''primitive_type'' ''int'' [] [])] []"

text \<open>
  Two installed specs with one library each, and a comparison that always returns a
  process result with exit code 2 and records one run.
\<close>

definition spec_a :: spec where
  "spec_a =
     \<lparr>spec_str = ''liba@1.0'', installed = True, libs = Inr [''/opt/a/lib/liba.so''],
      headers = Inr []\<rparr>"

definition spec_b :: spec where
  "spec_b =
     \<lparr>spec_str = ''liba@2.0'', installed = True, libs = Inr [''/opt/b/lib/liba.so''],
      headers = Inr []\<rparr>"

definition usage_error_differ :: differ where
  "usage_error_differ c1 c2 tr =
     (Inr (Some (\<lparr>returncode = 2, stdout = [], stderr = ''usage''\<rparr>, [''abidiff''])),
      tr @ [Run [''abidiff'']])"

section \<open>The diff classifier\<close>

lemma and_exp_cases: "(a::int) AND 2 ^ n = (if bit a n then 2 ^ n else 0)"
  by (rule bit_eqI) (auto simp add: bit_simps)

lemma and_4_iff: "((rc::int) AND 4 = 4) = bit rc 2"
  using and_exp_cases[of rc 2] by (simp split: if_splits)

lemma and_8_iff: "((rc::int) AND 8 = 0) = (\<not> bit rc 3)"
  using and_exp_cases[of rc 3] by (simp split: if_splits)

text \<open>
  C1. For every exit code the classifier returns one verdict, by this precedence: 0 gives
  \<open>NONE\<close> (no change); otherwise, when bit 2 (ABI changed, value 4) is set, the verdict is
  \<open>HARMFUL\<close> if bit 3 (incompatible, value 8) is set too and \<open>HARMLESS\<close> if not; otherwise
  it is \<open>ERROR\<close> (usage error). So 12, 4, 2 and 0 give \<open>HARMFUL\<close>, \<open>HARMLESS\<close>, \<open>ERROR\<close>
  and \<open>NONE\<close>, and a set bit 2 never gives \<open>NONE\<close> or \<open>ERROR\<close>.
\<close>

theorem return_code_to_diff_type_precedence:
  "return_code_to_diff_type rc =
     (if rc = 0 then NONE
      else if bit rc 2 then (if bit rc 3 then HARMFUL else HARMLESS)
      else ERROR)
   \<and> return_code_to_diff_type 12 = HARMFUL
   \<and> return_code_to_diff_type 4 = HARMLESS
   \<and> return_code_to_diff_type 2 = ERROR
   \<and> return_code_to_diff_type 0 = NONE
   \<and> (bit rc 2 \<longrightarrow>
        return_code_to_diff_type rc \<noteq> NONE \<and> return_code_to_diff_type rc \<noteq> ERROR)"
  by (auto simp add: return_code_to_diff_type_def ABI_CHANGE_def INCOMPATIBLE_CHANGE_def
        and_4_iff and_8_iff)

theorem return_code_to_diff_type_witness:
  "bit (12::int) 2
   \<and> return_code_to_diff_type 12 \<noteq> NONE \<and> return_code_to_diff_type 12 \<noteq> ERROR
   \<and> return_code_to_diff_type 6 = HARMLESS \<and> return_code_to_diff_type (-1) = HARMFUL
   \<and> return_code_to_diff_type 3 = ERROR"
  using return_code_to_diff_type_precedence [of 12] return_code_to_diff_type_precedence [of 6]
    return_code_to_diff_type_precedence [of "-1"] return_code_to_diff_type_precedence [of 3]
  by simp

section \<open>The cross product of a list with itself\<close>

lemma map_enumerate_nth:
  "map (case_prod g) (enumerate 0 xs) = map (\<lambda>i. g i (xs ! i)) [0..<length xs]"
  by (rule nth_equalityI) (simp_all add: nth_enumerate_eq)

lemma map_filter_Pair:
  "map f (filter P (map (Pair x) ys)) =
     concat (map (\<lambda>y. if P (x, y) then [f (x, y)] else []) ys)"
  by (induction ys) simp_all

lemma map_filter_product:
  "map f (filter P (List.product xs ys)) =
     concat (map (\<lambda>x. concat (map (\<lambda>y. if P (x, y) then [f (x, y)] else []) ys)) xs)"
  by (induction xs) (simp_all add: map_filter_Pair)

lemma cross_product_self_nth:
  "cross_product_self lst =
     concat (map (\<lambda>i. concat (map (\<lambda>j. if i \<noteq> j then [(lst ! i, lst ! j)] else [])
                                  [0..<length lst])) [0..<length lst])"
proof -
  have inner: "(\<lambda>(i, elt1). concat (map (\<lambda>(j, elt2). if i \<noteq> j then [(elt1, elt2)] else [])
                  (enumerate 0 lst)))
     = (\<lambda>(i, elt1). concat (map (\<lambda>j. if i \<noteq> j then [(elt1, lst ! j)] else [])
                  [0..<length lst]))"
    by (simp only: map_enumerate_nth)
  show ?thesis
    unfolding cross_product_self_def inner
    by (simp only: map_enumerate_nth)
qed

lemma cross_product_self_index:
  "cross_product_self lst =
     map (\<lambda>(i, j). (lst ! i, lst ! j))
       (filter (\<lambda>(i, j). i \<noteq> j) (List.product [0..<length lst] [0..<length lst]))"
  unfolding cross_product_self_nth map_filter_product by (simp cong: if_cong)

lemma length_filter_neq_upt:
  "length (filter (\<lambda>j. i \<noteq> j) [0..<n]) = (if i < n then n - 1 else n)"
proof -
  have "{x. i \<noteq> x} \<inter> {0..<n} = {0..<n} - {i}" by auto
  then show ?thesis by (simp add: distinct_length_filter)
qed

lemma length_index_pairs:
  "length (filter (\<lambda>(i, j). i \<noteq> j) (List.product [0..<n] [0..<n])) = n * (n - 1)"
proof -
  have "length (filter (\<lambda>(i, j). i \<noteq> j) (List.product [0..<n] [0..<n]))
      = sum_list (map (\<lambda>i. length (filter (\<lambda>j. i \<noteq> j) [0..<n])) [0..<n])"
    by (simp add: product_concat_map filter_concat length_concat comp_def filter_map)
  also have "\<dots> = sum_list (map (\<lambda>i. n - 1) [0..<n])"
    by (rule arg_cong[where f=sum_list], rule map_cong) (simp_all add: length_filter_neq_upt)
  also have "\<dots> = n * (n - 1)" by (simp add: sum_list_triv)
  finally show ?thesis .
qed

lemma length_cross_product_self:
  "length (cross_product_self lst) = length lst * (length lst - 1)"
  by (simp only: cross_product_self_index length_map length_index_pairs)

text \<open>
  C3. For a list of \<open>n\<close> entries the comparator builds exactly \<open>n * (n - 1)\<close> ordered
  pairs: the pair of the elements at \<open>i\<close> and \<open>j\<close> for every two distinct positions
  \<open>i, j < n\<close>, each position pair once, in both orders, and no position with itself.
  Pairing is by position: equal entries at different positions are paired.
\<close>

theorem cross_product_self_pairs:
  "length (cross_product_self lst) = length lst * (length lst - 1)
   \<and> cross_product_self lst =
       map (\<lambda>(i, j). (lst ! i, lst ! j))
         (filter (\<lambda>(i, j). i \<noteq> j) (List.product [0..<length lst] [0..<length lst]))
   \<and> distinct (filter (\<lambda>(i, j). i \<noteq> j) (List.product [0..<length lst] [0..<length lst]))
   \<and> set (filter (\<lambda>(i, j). i \<noteq> j) (List.product [0..<length lst] [0..<length lst]))
       = {(i, j). i < length lst \<and> j < length lst \<and> i \<noteq> j}"
proof -
  have "distinct (filter (\<lambda>(i, j). i \<noteq> j) (List.product [0..<length lst] [0..<length lst]))"
    by (simp add: distinct_product)
  moreover have
    "set (filter (\<lambda>(i, j). i \<noteq> j) (List.product [0..<length lst] [0..<length lst]))
       = {(i, j). i < length lst \<and> j < length lst \<and> i \<noteq> j}"
    by auto
  ultimately show ?thesis
    using cross_product_self_index length_cross_product_self by blast
qed

theorem cross_product_self_pairs_witness:
  "length (cross_product_self [1, 2, 1 :: nat]) = 6
   \<and> cross_product_self [1, 2, 1 :: nat] = [(1, 2), (1, 1), (2, 1), (2, 1), (1, 1), (1, 2)]"
  using cross_product_self_pairs [of "[1, 2, 1 :: nat]"]
  by (simp add: cross_product_self_def)

section \<open>The names of a corpus\<close>

lemma count_list_map: "count_list (map f xs) s = length (filter (\<lambda>x. f x = s) xs)"
  by (induction xs) simp_all

text \<open>
  C7. The derived query returns as type names the names of the class declarations
  followed by those of the typedef declarations, and as function names the names of the
  function declarations: every name occurs as often as there are declarations of that
  name, so nothing is left out and nothing is repeated beyond the collisions of the
  corpus itself.
\<close>

theorem type_and_function_names_exact:
  "fst (type_and_function_names abi) =
     map cd_name (class_decls abi) @ map td_name (typedef_decls abi)
   \<and> snd (type_and_function_names abi) = map fd_name (fun_decls abi)
   \<and> count_list (fst (type_and_function_names abi)) s =
       length (filter (\<lambda>cd. cd_name cd = s) (class_decls abi))
       + length (filter (\<lambda>td. td_name td = s) (typedef_decls abi))
   \<and> count_list (snd (type_and_function_names abi)) s =
       length (filter (\<lambda>fd. fd_name fd = s) (fun_decls abi))"
  by (simp add: type_and_function_names_def count_list_map)

theorem type_and_function_names_witness:
  "type_and_function_names widget_abi = ([''Widget''], [''widget_free''])
   \<and> count_list (fst (type_and_function_names widget_abi)) ''Widget'' = 1"
  using type_and_function_names_exact [of widget_abi "''Widget''"]
  by (simp add: widget_abi_def type_and_function_names_def)

section \<open>The corpus of a list of binaries\<close>

text \<open>
  C10. Whatever list of binaries it is given, \<open>ABI.from_binaries\<close> hands \<open>abidw\<close> the
  builtin \<open>bin\<close> and not its parameter: the unpacking at the head of \<open>abidw\<close> raises
  \<open>TypeError\<close>, no process is run (the trace is unchanged), and no corpus is parsed or
  returned. The suppression generator, which starts with this call, fails the same way.
\<close>

theorem from_binaries_never_forwards_bins:
  "from_binaries os bins suppression_file show_cmd extra_args tr =
     (Inl (TypeError ''cannot unpack non-iterable builtin_function_or_method object''), tr)
   \<and> abidw os BuiltinBin suppression_file show_cmd extra_args tr =
     (Inl (TypeError ''cannot unpack non-iterable builtin_function_or_method object''), tr)
   \<and> runs (snd (from_binaries os bins suppression_file show_cmd extra_args tr)) = runs tr
   \<and> suppression_for_binaries_from_header os bins header tr =
     (Inl (TypeError ''cannot unpack non-iterable builtin_function_or_method object''), tr)"
  by (simp add: from_binaries_def abidw_def suppression_for_binaries_from_header_def)

section \<open>The suppression generator\<close>


lemma to_suppression_text:
  "ClassDecl_to_suppression cd f = ''[suppress_type]'' @ [CHR 0x0A] @ ''  name = '' @ cd_name cd"
  "TypedefDecl_to_suppression td f = ''[suppress_type]'' @ [CHR 0x0A] @ ''  name = '' @ td_name td"
  "FunctionDecl_to_suppression fd f =
     ''[suppress_function]'' @ [CHR 0x0A] @ ''  name = '' @ fd_name fd"
  by (simp_all add: ClassDecl_to_suppression_def TypedefDecl_to_suppression_def
        FunctionDecl_to_suppression_def)

lemma type_suppressions_names:
  "type_suppressions abi hs =
     map (\<lambda>n. ''[suppress_type]'' @ [CHR 0x0A] @ ''  name = '' @ n)
       (filter (\<lambda>n. n \<notin> set hs) (map cd_name (class_decls abi))
        @ filter (\<lambda>n. n \<notin> set hs) (map td_name (typedef_decls abi)))"
  by (simp add: type_suppressions_def private_types_def to_suppression_text filter_map comp_def)

lemma func_suppressions_names:
  "func_suppressions abi hs =
     map (\<lambda>n. ''[suppress_function]'' @ [CHR 0x0A] @ ''  name = '' @ n)
       (filter (\<lambda>n. n \<notin> set hs) (map fd_name (fun_decls abi)))"
  by (simp add: func_suppressions_def private_funcs_def to_suppression_text filter_map comp_def)

lemma suppression_text_names:
  "suppression_text abi (header_types, header_functions, header_vars) =
     join [CHR 0x0A]
       (map (\<lambda>n. ''[suppress_type]'' @ [CHR 0x0A] @ ''  name = '' @ n)
          (filter (\<lambda>n. n \<notin> set (map symbol header_types)) (map cd_name (class_decls abi))
           @ filter (\<lambda>n. n \<notin> set (map symbol header_types)) (map td_name (typedef_decls abi)))
        @ map (\<lambda>n. ''[suppress_function]'' @ [CHR 0x0A] @ ''  name = '' @ n)
            (filter (\<lambda>n. n \<notin> set (map symbol header_functions)) (map fd_name (fun_decls abi))))"
  unfolding suppression_text_def
  by (simp only: Let_def prod.case type_suppressions_names func_suppressions_names)

text \<open>
  C2. Given a parsed corpus and the symbol lists of the header, the generator emits, in
  corpus order, one type block for each class declaration and each typedef declaration
  whose name is not among the header's type names, then one function block for each
  function declaration whose name is not among the header's function names, and nothing
  else: the variable declarations and the header's variable list do not enter. When every
  class, typedef and function name of the corpus is in the header surface, the output is
  the empty string.
\<close>

theorem suppression_exactly_private:
  "suppression_text abi (header_types, header_functions, header_vars) =
     join [CHR 0x0A]
       (map (\<lambda>n. ''[suppress_type]'' @ [CHR 0x0A] @ ''  name = '' @ n)
          (filter (\<lambda>n. n \<notin> set (map symbol header_types)) (map cd_name (class_decls abi))
           @ filter (\<lambda>n. n \<notin> set (map symbol header_types)) (map td_name (typedef_decls abi)))
        @ map (\<lambda>n. ''[suppress_function]'' @ [CHR 0x0A] @ ''  name = '' @ n)
            (filter (\<lambda>n. n \<notin> set (map symbol header_functions)) (map fd_name (fun_decls abi))))
   \<and> suppression_text (abi\<lparr>var_decls := vs\<rparr>) (header_types, header_functions, hvs) =
       suppression_text abi (header_types, header_functions, header_vars)
   \<and> (set (map cd_name (class_decls abi)) \<union> set (map td_name (typedef_decls abi))
         \<subseteq> set (map symbol header_types)
       \<and> set (map fd_name (fun_decls abi)) \<subseteq> set (map symbol header_functions)
       \<longrightarrow> suppression_text abi (header_types, header_functions, header_vars) = [])"
proof -
  have b: "suppression_text (abi\<lparr>var_decls := vs\<rparr>) (header_types, header_functions, hvs) =
       suppression_text abi (header_types, header_functions, header_vars)"
    unfolding suppression_text_names by simp
  have c: "suppression_text abi (header_types, header_functions, header_vars) = []"
    if "set (map cd_name (class_decls abi)) \<union> set (map td_name (typedef_decls abi))
         \<subseteq> set (map symbol header_types)"
       "set (map fd_name (fun_decls abi)) \<subseteq> set (map symbol header_functions)"
  proof -
    have "filter (\<lambda>n. n \<notin> set (map symbol header_types)) (map cd_name (class_decls abi)) = []"
      using that(1) by (auto simp add: filter_empty_conv)
    moreover have
      "filter (\<lambda>n. n \<notin> set (map symbol header_types)) (map td_name (typedef_decls abi)) = []"
      using that(1) by (auto simp add: filter_empty_conv)
    moreover have
      "filter (\<lambda>n. n \<notin> set (map symbol header_functions)) (map fd_name (fun_decls abi)) = []"
      using that(2) by (auto simp add: filter_empty_conv)
    ultimately show ?thesis unfolding suppression_text_names by simp
  qed
  show ?thesis using suppression_text_names b c by blast
qed

theorem suppression_exactly_private_witness:
  "set (map cd_name (class_decls widget_abi)) \<union> set (map td_name (typedef_decls widget_abi))
     \<subseteq> set (map symbol [widget_type])
   \<and> set (map fd_name (fun_decls widget_abi)) \<subseteq> set (map symbol [widget_free_fun])
   \<and> suppression_text widget_abi ([widget_type], [widget_free_fun], []) = []
   \<and> suppression_text widget_abi ([widget_type], [], []) =
       ''[suppress_function]'' @ [CHR 0x0A] @ ''  name = widget_free''"
  using suppression_exactly_private [of widget_abi "[widget_type]" "[widget_free_fun]" "[]"]
    suppression_exactly_private [of widget_abi "[widget_type]" "[]" "[]"]
  by (simp add: widget_abi_def widget_type_def widget_free_fun_def)

section \<open>The layout of the suppression text\<close>

lemma split_nl_not_Nil: "split_nl s \<noteq> []"
  by (induction s) (auto split: list.splits)

lemma split_nl_line: "CHR 0x0A \<notin> set l \<Longrightarrow> split_nl l = [l]"
  by (induction l) (auto split: list.splits)

lemma split_nl_append:
  "CHR 0x0A \<notin> set l \<Longrightarrow> split_nl (l @ CHR 0x0A # rest) = l # split_nl rest"
  by (induction l) (auto split: list.splits)

lemma split_nl_join:
  "ls \<noteq> [] \<Longrightarrow> \<forall>l \<in> set ls. CHR 0x0A \<notin> set l \<Longrightarrow> split_nl (join [CHR 0x0A] ls) = ls"
proof (induction ls)
  case Nil
  then show ?case by simp
next
  case (Cons l ls)
  show ?case
  proof (cases ls)
    case Nil
    then show ?thesis using Cons.prems by (simp add: split_nl_line)
  next
    case (Cons m ms)
    then have "split_nl (join [CHR 0x0A] ls) = ls" using Cons.IH Cons.prems by simp
    then show ?thesis using Cons Cons.prems by (simp add: split_nl_append)
  qed
qed

lemma join_two_lines:
  "join [CHR 0x0A] (map (\<lambda>p. fst p @ [CHR 0x0A] @ snd p) ps) =
     join [CHR 0x0A] (concat (map (\<lambda>p. [fst p, snd p]) ps))"
proof (induction ps)
  case Nil
  then show ?case by simp
next
  case (Cons p ps)
  show ?case
  proof (cases ps)
    case Nil
    then show ?thesis by simp
  next
    case (Cons q qs)
    then show ?thesis using Cons.IH by simp
  qed
qed

lemma suppressions_as_line_pairs:
  "type_suppressions abi hts @ func_suppressions abi hfs =
     map (\<lambda>p. fst p @ [CHR 0x0A] @ snd p)
       (map (\<lambda>t. (''[suppress_type]'', ''  name = '' @ case_sum cd_name td_name t))
          (private_types abi hts)
        @ map (\<lambda>f. (''[suppress_function]'', ''  name = '' @ fd_name f))
            (private_funcs abi hfs))"
  by (auto simp add: type_suppressions_def func_suppressions_def to_suppression_text
        split: sum.splits)

text \<open>
  C9, as the code has it. Each block is a bracketed section header, a newline, and the
  line \<open>name = <Name>\<close> indented by two spaces; consecutive blocks are separated by one
  newline and no blank line: when the names hold no newline, the lines of the final text
  are, block after block, the header line and the name line, and nothing in between.
\<close>

theorem suppression_text_lines:
  "ClassDecl_to_suppression cd f =
     ''[suppress_type]'' @ [CHR 0x0A] @ ''  name = '' @ cd_name cd
   \<and> TypedefDecl_to_suppression td f =
     ''[suppress_type]'' @ [CHR 0x0A] @ ''  name = '' @ td_name td
   \<and> FunctionDecl_to_suppression fd f =
     ''[suppress_function]'' @ [CHR 0x0A] @ ''  name = '' @ fd_name fd
   \<and> ((\<forall>t \<in> set (private_types abi (map symbol hts)).
          CHR 0x0A \<notin> set (case_sum cd_name td_name t))
       \<and> (\<forall>fn \<in> set (private_funcs abi (map symbol hfs)). CHR 0x0A \<notin> set (fd_name fn))
       \<and> (private_types abi (map symbol hts) \<noteq> [] \<or> private_funcs abi (map symbol hfs) \<noteq> [])
       \<longrightarrow> split_nl (suppression_text abi (hts, hfs, hvs)) =
             concat (map (\<lambda>t. [''[suppress_type]'', ''  name = '' @ case_sum cd_name td_name t])
                       (private_types abi (map symbol hts)))
             @ concat (map (\<lambda>fn. [''[suppress_function]'', ''  name = '' @ fd_name fn])
                         (private_funcs abi (map symbol hfs))))"
proof -
  let ?pt = "private_types abi (map symbol hts)"
  let ?pf = "private_funcs abi (map symbol hfs)"
  let ?ps = "map (\<lambda>t. (''[suppress_type]'', ''  name = '' @ case_sum cd_name td_name t)) ?pt
             @ map (\<lambda>fn. (''[suppress_function]'', ''  name = '' @ fd_name fn)) ?pf"
  let ?ls = "concat (map (\<lambda>p. [fst p, snd p]) ?ps)"
  have text_eq: "suppression_text abi (hts, hfs, hvs) = join [CHR 0x0A] ?ls"
    unfolding suppression_text_def
    by (simp only: Let_def prod.case suppressions_as_line_pairs join_two_lines)
  have ls: "?ls = concat (map (\<lambda>t. [''[suppress_type]'', ''  name = '' @ case_sum cd_name td_name t]) ?pt)
             @ concat (map (\<lambda>fn. [''[suppress_function]'', ''  name = '' @ fd_name fn]) ?pf)"
    by (simp add: comp_def)
  have main: "split_nl (suppression_text abi (hts, hfs, hvs)) = ?ls"
    if nl1: "\<forall>t \<in> set ?pt. CHR 0x0A \<notin> set (case_sum cd_name td_name t)"
    and nl2: "\<forall>fn \<in> set ?pf. CHR 0x0A \<notin> set (fd_name fn)"
    and ne: "?pt \<noteq> [] \<or> ?pf \<noteq> []"
  proof -
    have "?ls \<noteq> []" using ne by (cases ?pt; cases ?pf) simp_all
    moreover have "\<forall>l \<in> set ?ls. CHR 0x0A \<notin> set l" using nl1 nl2 by auto
    ultimately show ?thesis unfolding text_eq by (rule split_nl_join)
  qed
  show ?thesis using main ls by (simp add: to_suppression_text)
qed

theorem suppression_text_lines_witness:
  "private_types widget_abi (map symbol []) \<noteq> []
   \<and> split_nl (suppression_text widget_abi ([], [], [])) =
       [''[suppress_type]'', ''  name = Widget'', ''[suppress_function]'', ''  name = widget_free'']"
  using suppression_text_lines [of _ _ _ _ widget_abi "[]" "[]" "[]"]
  by (simp add: widget_abi_def private_types_def private_funcs_def)

text \<open>
  The claim as it was stated asks for a blank line between consecutive blocks. With the
  specification's corpus and an empty header surface the text has two blocks and four
  lines, none of them empty.
\<close>

theorem suppression_text_blank_line_counterexample:
  "suppression_text widget_abi ([], [], []) =
     ''[suppress_type]'' @ [CHR 0x0A] @ ''  name = Widget'' @ [CHR 0x0A]
     @ ''[suppress_function]'' @ [CHR 0x0A] @ ''  name = widget_free''
   \<and> suppression_text widget_abi ([], [], []) \<noteq>
     ''[suppress_type]'' @ [CHR 0x0A] @ ''  name = Widget'' @ [CHR 0x0A, CHR 0x0A]
     @ ''[suppress_function]'' @ [CHR 0x0A] @ ''  name = widget_free''
   \<and> [] \<notin> set (split_nl (suppression_text widget_abi ([], [], [])))"
  by (simp add: suppression_text_def type_suppressions_def func_suppressions_def
        private_types_def private_funcs_def widget_abi_def to_suppression_text)

section \<open>Failure of the corpus parser on missing attributes and children\<close>

lemma isl_ebind: "isl (ebind m f) = (isl m \<or> isl (f (projr m)))"
  by (cases m) (simp_all add: ebind_def)

lemma isl_map_sum: "isl (map_sum f g m) = isl m"
  by (cases m) simp_all

lemma emap_fails: "list_ex (\<lambda>x. isl (f x)) xs \<Longrightarrow> isl (emap f xs)"
  by (induction xs) (auto split: sum.splits)

lemma findall_tag: "x \<in> set (findall p t) \<Longrightarrow> tag x = t"
  by (simp add: findall_def)

lemma find_tag: "find p t = Some x \<Longrightarrow> tag x = t"
  unfolding find_def using findall_tag [of x p t] by (auto split: list.splits)

lemma as_children_fails:
  "list_ex (\<lambda>x. isl (f x)) (findall p t) \<Longrightarrow> isl (as_children t f (Some p))"
  by (auto simp add: as_children_def emap_fails findall_def)

lemma as_children_lacks:
  assumes "list_ex lacks p_of" and "p_of = findall p t"
    and "\<And>x. tag x = t \<Longrightarrow> lacks x \<Longrightarrow> isl (f x)"
  shows "isl (as_children t f (Some p))"
proof (rule as_children_fails)
  show "list_ex (\<lambda>x. isl (f x)) (findall p t)"
    using assms findall_tag [of _ p t] by (auto simp add: list_ex_iff)
qed

lemma get_or_fail_None: "xget x a = None \<Longrightarrow> get_or_fail x a = Inl (AttributeError a (Keys (xkeys x)))"
  by (simp add: get_or_fail_def)

lemma isl_get_or_fail: "isl (get_or_fail x a) = (xget x a = None)"
  by (simp add: get_or_fail_def split: option.splits)

lemma isl_find_or_fail: "isl (find_or_fail x n) = (find x n = None)"
  by (simp add: find_or_fail_def split: option.splits)

lemma Symbol_fails: "tag x = ''elf-symbol'' \<Longrightarrow> lacks_attr x \<Longrightarrow> isl (Symbol_from_xmlelt x)"
  unfolding lacks_attr_def required_attrs_def Symbol_from_xmlelt_def
  by (auto simp add: isl_ebind isl_get_or_fail)

lemma TypeDecl_fails: "tag x = ''type-decl'' \<Longrightarrow> lacks_attr x \<Longrightarrow> isl (TypeDecl_from_xmlelt x)"
  unfolding lacks_attr_def required_attrs_def TypeDecl_from_xmlelt_def
  by (auto simp add: isl_ebind isl_get_or_fail)

lemma VarDecl_fails: "tag x = ''var-decl'' \<Longrightarrow> lacks_attr x \<Longrightarrow> isl (VarDecl_from_xmlelt x)"
  unfolding lacks_attr_def required_attrs_def VarDecl_from_xmlelt_def
  by (auto simp add: isl_ebind isl_get_or_fail Let_def)

lemma TypedefDecl_fails:
  "tag x = ''typedef-decl'' \<Longrightarrow> lacks_attr x \<Longrightarrow> isl (TypedefDecl_from_xmlelt x)"
  unfolding lacks_attr_def required_attrs_def TypedefDecl_from_xmlelt_def
  by (auto simp add: isl_ebind isl_get_or_fail)

lemma isl_FunctionDecl:
  "isl (FunctionDecl_from_xmlelt x) =
     (xget x ''name'' = None
      \<or> isl (as_children ''parameter'' Parameter_from_xmlelt (Some x))
      \<or> (case find x ''return'' of None \<Rightarrow> True | Some r \<Rightarrow> xget r ''type-id'' = None))"
  by (simp add: FunctionDecl_from_xmlelt_def Let_def isl_ebind isl_get_or_fail find_or_fail_def
        split: option.splits)

lemma lacks_attr_return: "tag r = ''return'' \<Longrightarrow> lacks_attr r = (xget r ''type-id'' = None)"
  by (simp add: lacks_attr_def required_attrs_def)

lemma lacks_attr_function: "tag x = ''function-decl'' \<Longrightarrow> lacks_attr x = (xget x ''name'' = None)"
  by (simp add: lacks_attr_def required_attrs_def)

lemma FunctionDecl_fails:
  assumes "tag x = ''function-decl''" and "function_decl_lacks x"
  shows "isl (FunctionDecl_from_xmlelt x)"
proof (cases "find x ''return''")
  case None
  then show ?thesis by (simp add: isl_FunctionDecl)
next
  case (Some r)
  then have "tag r = ''return''" by (rule find_tag)
  then show ?thesis
    using assms Some
    by (auto simp add: isl_FunctionDecl function_decl_lacks_def lacks_attr_return
          lacks_attr_function)
qed


lemma isl_DataMember:
  "isl (DataMember_from_xmlelt x) =
     ((case find x ''var-decl'' of
         Some v \<Rightarrow> isl (VarDecl_from_xmlelt v)
       | None \<Rightarrow>
           (case find x ''function-decl'' of
              None \<Rightarrow> True
            | Some f \<Rightarrow> isl (FunctionDecl_from_xmlelt f)))
      \<or> xget x ''access'' = None
      \<or> xget x ''layout-offset-in-bits'' = None
      \<or> isl (py_int (projr (get_or_fail x ''layout-offset-in-bits''))))"
  by (simp add: DataMember_from_xmlelt_def isl_ebind isl_get_or_fail isl_map_sum
        find_or_fail_def split: option.splits)

lemma lacks_attr_member:
  "tag x = ''data-member'' \<Longrightarrow>
     lacks_attr x = (xget x ''access'' = None \<or> xget x ''layout-offset-in-bits'' = None)"
  by (simp add: lacks_attr_def required_attrs_def)

lemma DataMember_fails:
  assumes "tag x = ''data-member''" and "data_member_lacks x"
  shows "isl (DataMember_from_xmlelt x)"
proof (cases "find x ''var-decl''")
  case (Some v)
  then have "tag v = ''var-decl''" by (rule find_tag)
  then show ?thesis
    using assms Some VarDecl_fails [of v]
    by (auto simp add: isl_DataMember data_member_lacks_def lacks_attr_member)
next
  case None
  show ?thesis
  proof (cases "find x ''function-decl''")
    case inner: None
    then show ?thesis using None by (simp add: isl_DataMember)
  next
    case (Some f)
    then have "tag f = ''function-decl''" by (rule find_tag)
    then show ?thesis
      using assms None Some FunctionDecl_fails [of f]
      by (auto simp add: isl_DataMember data_member_lacks_def lacks_attr_member)
  qed
qed

lemma isl_ClassDecl:
  "isl (ClassDecl_from_xmlelt x) =
     (isl (case xget x ''size-in-bits'' of
             None \<Rightarrow> Inr None
           | Some s \<Rightarrow> (if s = [] then Inr None else map_sum (\<lambda>e. e) Some (py_int s)))
      \<or> xget x ''name'' = None \<or> xget x ''is-struct'' = None
      \<or> xget x ''visibility'' = None \<or> xget x ''id'' = None
      \<or> isl (as_children ''data-member'' DataMember_from_xmlelt (Some x)))"
  by (simp add: ClassDecl_from_xmlelt_def Let_def isl_ebind isl_get_or_fail)

lemma lacks_attr_class:
  "tag x = ''class-decl'' \<Longrightarrow>
     lacks_attr x = (xget x ''name'' = None \<or> xget x ''is-struct'' = None
                     \<or> xget x ''visibility'' = None \<or> xget x ''id'' = None)"
  by (simp add: lacks_attr_def required_attrs_def)

lemma ClassDecl_fails:
  assumes "tag x = ''class-decl''" and "class_decl_lacks x"
  shows "isl (ClassDecl_from_xmlelt x)"
proof (cases "lacks_attr x")
  case True
  then show ?thesis using assms(1) by (auto simp add: isl_ClassDecl lacks_attr_class)
next
  case False
  then have "list_ex data_member_lacks (findall x ''data-member'')"
    using assms(2) by (simp add: class_decl_lacks_def)
  then have "isl (as_children ''data-member'' DataMember_from_xmlelt (Some x))"
    by (rule as_children_lacks) (simp_all add: DataMember_fails)
  then show ?thesis by (simp add: isl_ClassDecl)
qed

lemma isl_from_xml_instr:
  "isl (from_xml_instr acc i) =
     (isl (as_children ''type-decl'' TypeDecl_from_xmlelt (Some i))
      \<or> isl (as_children ''class-decl'' ClassDecl_from_xmlelt (Some i))
      \<or> isl (as_children ''function-decl'' FunctionDecl_from_xmlelt (Some i))
      \<or> isl (as_children ''typedef-decl'' TypedefDecl_from_xmlelt (Some i))
      \<or> isl (as_children ''var-decl'' VarDecl_from_xmlelt (Some i)))"
  by (cases acc) (simp add: from_xml_instr_def isl_ebind)

lemma from_xml_instr_fails: "abi_instr_lacks i \<Longrightarrow> isl (from_xml_instr acc i)"
  unfolding abi_instr_lacks_def isl_from_xml_instr
  using as_children_lacks [of lacks_attr _ i "''type-decl''" TypeDecl_from_xmlelt]
    as_children_lacks [of class_decl_lacks _ i "''class-decl''" ClassDecl_from_xmlelt]
    as_children_lacks [of function_decl_lacks _ i "''function-decl''" FunctionDecl_from_xmlelt]
    as_children_lacks [of lacks_attr _ i "''typedef-decl''" TypedefDecl_from_xmlelt]
    as_children_lacks [of lacks_attr _ i "''var-decl''" VarDecl_from_xmlelt]
    TypeDecl_fails ClassDecl_fails FunctionDecl_fails TypedefDecl_fails VarDecl_fails
  by blast

lemma from_xml_loop_fails:
  "list_ex abi_instr_lacks is \<Longrightarrow> isl (from_xml_loop acc is)"
proof (induction "is" arbitrary: acc)
  case Nil
  then show ?case by simp
next
  case (Cons i rest)
  show ?case
  proof (cases "from_xml_instr acc i")
    case (Inl e)
    then show ?thesis by simp
  next
    case (Inr acc')
    then have "\<not> abi_instr_lacks i" using from_xml_instr_fails [of i acc] by auto
    then have "list_ex abi_instr_lacks rest" using Cons.prems by simp
    then show ?thesis using Cons.IH Inr by simp
  qed
qed

lemma isl_from_xml_root:
  "isl (from_xml_root root) =
     (xget root ''path'' = None
      \<or> (case find root ''elf-function-symbols'' of
            None \<Rightarrow> True
          | Some s \<Rightarrow> isl (as_children ''elf-symbol'' Symbol_from_xmlelt (Some s)))
      \<or> isl (as_children ''elf-symbol'' Symbol_from_xmlelt (find root ''elf-variable-symbols''))
      \<or> isl (from_xml_loop ([], [], [], [], []) (findall root ''abi-instr'')))"
  by (simp add: from_xml_root_def isl_ebind isl_get_or_fail find_or_fail_def split_beta
        split: option.splits)

lemma symbols_fail:
  assumes "list_ex lacks_attr (findall s ''elf-symbol'')"
  shows "isl (as_children ''elf-symbol'' Symbol_from_xmlelt (Some s))"
  using assms by (rule as_children_lacks) (simp_all add: Symbol_fails)

lemma from_xml_root_fails: "corpus_lacks root \<Longrightarrow> isl (from_xml_root root)"
  unfolding corpus_lacks_def isl_from_xml_root
  using symbols_fail from_xml_loop_fails
  by (auto split: option.splits)

text \<open>
  C8, as the code has it. Parsing fails, and returns no corpus, whenever a required
  attribute or a required child is missing in an element the parser visits. The
  \<open>AttributeError\<close> raised for a missing attribute carries the attribute's name together
  with the list of the element's attribute keys (not its tag); the one raised for a
  missing child carries the child's tag together with the element itself.
\<close>

theorem corpus_parse_fails_hard:
  "(xget xelt attr = None \<longrightarrow>
      get_or_fail xelt attr = Inl (AttributeError attr (Keys (xkeys xelt))))
   \<and> (find xelt n = None \<longrightarrow> find_or_fail xelt n = Inl (AttributeError n (Elem xelt)))
   \<and> (corpus_lacks root \<longrightarrow> (\<exists>e. from_xml_root root = Inl e))
   \<and> (fromstring os xml_str = Inr root \<and> corpus_lacks root \<longrightarrow>
        (\<exists>e. from_xml os xml_str = Inl e))"
proof -
  have a: "\<exists>e. from_xml_root root = Inl e" if "corpus_lacks root"
    using from_xml_root_fails [OF that] by (cases "from_xml_root root") simp_all
  have b: "\<exists>e. from_xml os xml_str = Inl e"
    if "fromstring os xml_str = Inr root" "corpus_lacks root"
    using a that by (simp add: from_xml_def ebind_def)
  show ?thesis using a b by (simp add: get_or_fail_def find_or_fail_def)
qed

theorem corpus_parse_fails_hard_witness:
  "xget widget_class_no_id ''id'' = None
   \<and> get_or_fail widget_class_no_id ''id'' =
       Inl (AttributeError ''id'' (Keys [''name'', ''is-struct'', ''visibility'']))
   \<and> find widget_class_no_id ''return'' = None
   \<and> find_or_fail widget_class_no_id ''return'' =
       Inl (AttributeError ''return'' (Elem widget_class_no_id))
   \<and> corpus_lacks corpus_no_id
   \<and> (\<exists>e. from_xml_root corpus_no_id = Inl e)
   \<and> fromstring example_os [] = Inr corpus_no_id
   \<and> (\<exists>e. from_xml example_os [] = Inl e)"
proof -
  have h1: "xget widget_class_no_id ''id'' = None" by code_simp
  have h2: "find widget_class_no_id ''return'' = None" by code_simp
  have h3: "corpus_lacks corpus_no_id" by code_simp
  have h4: "fromstring example_os [] = Inr corpus_no_id" by (simp add: example_os_def)
  have h5: "xkeys widget_class_no_id = [''name'', ''is-struct'', ''visibility'']" by code_simp
  show ?thesis
    using corpus_parse_fails_hard
            [of widget_class_no_id "''id''" "''return''" corpus_no_id example_os "[]"]
      h1 h2 h3 h4 h5
    by simp
qed

text \<open>
  The claim as it was stated has the error report the element's tag. For a class
  declaration without \<open>id\<close> the parse ends in the error below, which holds the missing
  name and the keys of the element; an element of another tag with the same attributes
  raises the very same error.
\<close>

theorem error_reports_keys_not_tag_counterexample:
  "from_xml_root corpus_no_id =
     Inl (AttributeError ''id'' (Keys [''name'', ''is-struct'', ''visibility'']))
   \<and> tag widget_class_no_id = ''class-decl''
   \<and> get_or_fail widget_class_no_id ''id'' =
       get_or_fail (Element ''typedef-decl'' (attrib widget_class_no_id) []) ''id''"
  by code_simp

section \<open>Header blocks from system files\<close>



lemma separate_symbols_block:
  "parse_header_blocks os [b] acc tr =
     (case HeaderBlock_parse os b tr of
        (Inl e, tr1) \<Rightarrow> (Inl e, tr1)
      | (Inr syms, tr1) \<Rightarrow> (Inr (separate_symbols acc syms), tr1))"
  by (simp split: prod.splits sum.splits)





section \<open>Node shapes the header parser skips, and those it refuses\<close>

lemma not_none_append: "not_none (xs @ ys) = not_none xs @ not_none ys"
  by (simp add: not_none_def)

lemma fst_parse_loop:
  "fst (parse_loop ns parsed tr) =
     map_sum (\<lambda>e. e) (\<lambda>ps. parsed @ ps) (fst (parse_loop ns [] []))"
proof (induction ns arbitrary: parsed tr)
  case Nil
  then show ?case by simp
next
  case (Cons n ns)
  obtain r out where pn: "parse_node n = (r, out)" by (cases "parse_node n")
  show ?case
  proof (cases r)
    case (Inl e)
    then show ?thesis using pn by simp
  next
    case (Inr ps)
    have "fst (parse_loop (n # ns) parsed tr) = fst (parse_loop ns (parsed @ ps) (tr @ out))"
      using pn Inr by simp
    also have "\<dots> = map_sum (\<lambda>e. e) (\<lambda>qs. (parsed @ ps) @ qs) (fst (parse_loop ns [] []))"
      by (rule Cons.IH)
    also have "\<dots> = map_sum (\<lambda>e. e) (\<lambda>qs. parsed @ qs)
                        (map_sum (\<lambda>e. e) (\<lambda>qs. ps @ qs) (fst (parse_loop ns [] [])))"
      by (cases "fst (parse_loop ns [] [])") simp_all
    also have "map_sum (\<lambda>e. e) (\<lambda>qs. ps @ qs) (fst (parse_loop ns [] []))
                 = fst (parse_loop ns ([] @ ps) ([] @ out))"
      using Cons.IH [of "[] @ ps" "[] @ out"] by simp
    also have "\<dots> = fst (parse_loop (n # ns) [] [])"
      using pn Inr by simp
    finally show ?thesis .
  qed
qed

lemma fst_parse_loop_append:
  "fst (parse_loop (ns1 @ ns2) [] []) =
     (case fst (parse_loop ns1 [] []) of
        Inl e \<Rightarrow> Inl e
      | Inr ps \<Rightarrow> map_sum (\<lambda>e. e) (\<lambda>qs. ps @ qs) (fst (parse_loop ns2 [] [])))"
proof (induction ns1)
  case Nil
  show ?case by (cases "fst (parse_loop ns2 [] [])") simp_all
next
  case (Cons n ns1)
  obtain r out where pn: "parse_node n = (r, out)" by (cases "parse_node n")
  show ?case
  proof (cases r)
    case (Inl e)
    then show ?thesis using pn by simp
  next
    case (Inr ps)
    have a: "fst (parse_loop ((n # ns1) @ ns2) [] []) =
          map_sum (\<lambda>e. e) (\<lambda>qs. ps @ qs) (fst (parse_loop (ns1 @ ns2) [] []))"
      using pn Inr fst_parse_loop [of "ns1 @ ns2" ps out] by simp
    have b: "fst (parse_loop (n # ns1) [] []) =
          map_sum (\<lambda>e. e) (\<lambda>qs. ps @ qs) (fst (parse_loop ns1 [] []))"
      using pn Inr fst_parse_loop [of ns1 ps out] by simp
    show ?thesis
      unfolding a b Cons.IH
      by (cases "fst (parse_loop ns1 [] [])"; cases "fst (parse_loop ns2 [] [])") simp_all
  qed
qed

lemma skipped_node_continues:
  assumes "parse_node n = (Inr ps, out)" and "not_none ps = []"
  shows "map_sum (\<lambda>e. e) not_none (fst (parse_loop (ns1 @ n # ns2) [] tr)) =
         map_sum (\<lambda>e. e) not_none (fst (parse_loop (ns1 @ ns2) [] tr))"
proof -
  have one: "fst (parse_loop (n # ns2) [] []) =
      map_sum (\<lambda>e. e) (\<lambda>qs. ps @ qs) (fst (parse_loop ns2 [] []))"
    using assms(1) fst_parse_loop [of ns2 ps out] by simp
  have "map_sum (\<lambda>e. e) not_none (fst (parse_loop (ns1 @ n # ns2) [] [])) =
        map_sum (\<lambda>e. e) not_none (fst (parse_loop (ns1 @ ns2) [] []))"
    unfolding fst_parse_loop_append [of ns1 "n # ns2"] fst_parse_loop_append [of ns1 ns2] one
    using assms(2)
    by (cases "fst (parse_loop ns1 [] [])"; cases "fst (parse_loop ns2 [] [])")
       (simp_all add: not_none_append)
  then show ?thesis
    using fst_parse_loop [of "ns1 @ n # ns2" "[]" tr] fst_parse_loop [of "ns1 @ ns2" "[]" tr]
    by (simp add: sum.map_ident)
qed


lemma terminator_ignored: "ntype n = '';'' \<Longrightarrow> parse_node n = (Inr [], [])"
  by (simp add: parse_node_def)

lemma unknown_node_logged:
  "ntype n \<notin> {''type_definition'', ''declaration'', ''struct_specifier'',
               ''enum_specifier'', '';''} \<Longrightarrow>
     parse_node n = (Inr [], [Print Stdout (''Unhandled node: '' @ ntype n)])"
  unfolding parse_node_def by (simp only: insert_iff empty_iff de_Morgan_disj if_False simp_thms)

lemma parse_node_dispatch:
  "ntype n = ''type_definition'' \<Longrightarrow> parse_node n = appended (parse_type_definition n)"
  "ntype n = ''declaration'' \<Longrightarrow> parse_node n = appended (parse_declaration n)"
  "ntype n = ''enum_specifier'' \<Longrightarrow> parse_node n = appended (parse_enum_specifier n)"
  by (simp_all add: parse_node_def)

lemma typedef_declarator_skipped:
  assumes "ntype n = ''type_definition''" and "child_by_field_name n ''declarator'' = Some d"
    and "ntype d \<notin> {''function_declarator'', ''type_identifier'', ''pointer_declarator''}"
  shows "parse_node n =
          (Inr [None],
           [Print Stdout (''Unhandled declarator in _parse_type_definition: '' @ ntype d)])"
proof -
  have d: "ntype d \<noteq> ''function_declarator''" "ntype d \<noteq> ''type_identifier''"
    "ntype d \<noteq> ''pointer_declarator''"
    using assms(3) by blast+
  have "parse_type_definition n =
          (Inr None,
           [Print Stdout (''Unhandled declarator in _parse_type_definition: '' @ ntype d)])"
    unfolding parse_type_definition_def by (simp only: assms(2) option.case d if_False)
  then show ?thesis
    unfolding parse_node_dispatch(1) [OF assms(1)] by (simp add: appended_def)
qed

lemma declaration_declarator_skipped:
  assumes "ntype n = ''declaration''" and "child_by_field_name n ''declarator'' = Some d"
    and "ntype d \<notin> {''function_declarator'', ''pointer_declarator'', ''identifier'',
                      ''array_declarator''}"
  shows "parse_node n =
          (Inr [None],
           [Print Stdout (''Unhandled declarator in _parse_declaration: '' @ ntype d)])"
proof -
  have d: "ntype d \<noteq> ''function_declarator''" "ntype d \<noteq> ''pointer_declarator''"
    "ntype d \<noteq> ''identifier''" "ntype d \<noteq> ''array_declarator''"
    using assms(3) by blast+
  have "parse_declaration n =
          (Inr None,
           [Print Stdout (''Unhandled declarator in _parse_declaration: '' @ ntype d)])"
    unfolding parse_declaration_def by (simp only: assms(2) option.case d if_False)
  then show ?thesis
    unfolding parse_node_dispatch(2) [OF assms(1)] by (simp add: appended_def)
qed

lemma anonymous_enum_dropped:
  assumes "ntype n = ''enum_specifier''" and "child_by_field_name n ''name'' = None"
  shows "parse_node n = (Inr [None], [])"
  unfolding parse_node_dispatch(3) [OF assms(1)]
  by (simp add: parse_enum_specifier_def assms(2) text_of_def appended_def)

lemma missing_declarator_asserts:
  assumes "ntype n = ''type_definition'' \<or> ntype n = ''declaration''"
    and "child_by_field_name n ''declarator'' = None"
  shows "parse_node n = (Inl (AssertionError []), [])"
  using assms(1)
proof
  assume t: "ntype n = ''type_definition''"
  show ?thesis
    unfolding parse_node_dispatch(1) [OF t]
    by (simp add: parse_type_definition_def assms(2) appended_def)
next
  assume t: "ntype n = ''declaration''"
  show ?thesis
    unfolding parse_node_dispatch(2) [OF t]
    by (simp add: parse_declaration_def assms(2) appended_def)
qed

lemma typedef_function_asserts:
  assumes "ntype n = ''type_definition''" and "child_by_field_name n ''declarator'' = Some d"
    and "ntype d = ''function_declarator''" and "child_by_field_name d ''declarator'' = Some c"
    and "ntype c \<noteq> ''parenthesized_declarator''"
  shows "parse_node n = (Inl (AssertionError []), [])"
  unfolding parse_node_dispatch(1) [OF assms(1)]
  by (simp add: parse_type_definition_def assms(2-5) appended_def)

lemma declaration_function_asserts:
  assumes "ntype n = ''declaration''" and "child_by_field_name n ''declarator'' = Some d"
    and "ntype d = ''function_declarator''" and "child_by_field_name d ''declarator'' = Some c"
    and "ntype c \<noteq> ''identifier''"
  shows "parse_node n = (Inl (AssertionError (''Got '' @ ntype c)), [])"
  unfolding parse_node_dispatch(2) [OF assms(1)]
  by (simp add: parse_declaration_def assms(2-5) appended_def type_of_def ebind_def)

text \<open>
  C5, as the code has it. For a top-level node of a surviving block the parser does not
  raise, and goes on with the next node, when the node is a bare terminator (ignored), has
  an unrecognized type (logged), is a typedef or a declaration whose declarator has an
  unrecognized type (logged), or is an enum without a name (dropped silently): the node
  adds no symbol, and the symbols of the block are those of the other nodes. It does raise
  \<open>AssertionError\<close>, which ends the extraction, when a typedef or declaration has
  no declarator, when the declarator of a function-shaped typedef is not parenthesized, and
  when the declarator of a function declaration is not an identifier.
\<close>

theorem unrecognized_shapes_are_skipped:
  "(ntype n = '';'' \<longrightarrow> parse_node n = (Inr [], []))
   \<and> (ntype n \<notin> {''type_definition'', ''declaration'', ''struct_specifier'',
                   ''enum_specifier'', '';''} \<longrightarrow>
        parse_node n = (Inr [], [Print Stdout (''Unhandled node: '' @ ntype n)]))
   \<and> (ntype n = ''type_definition'' \<and> child_by_field_name n ''declarator'' = Some d
        \<and> ntype d \<notin> {''function_declarator'', ''type_identifier'', ''pointer_declarator''} \<longrightarrow>
        parse_node n =
          (Inr [None],
           [Print Stdout (''Unhandled declarator in _parse_type_definition: '' @ ntype d)]))
   \<and> (ntype n = ''declaration'' \<and> child_by_field_name n ''declarator'' = Some d
        \<and> ntype d \<notin> {''function_declarator'', ''pointer_declarator'', ''identifier'',
                        ''array_declarator''} \<longrightarrow>
        parse_node n =
          (Inr [None],
           [Print Stdout (''Unhandled declarator in _parse_declaration: '' @ ntype d)]))
   \<and> (ntype n = ''enum_specifier'' \<and> child_by_field_name n ''name'' = None \<longrightarrow>
        parse_node n = (Inr [None], []))
   \<and> (parse_node n = (Inr ps, out) \<and> not_none ps = [] \<longrightarrow>
        map_sum (\<lambda>e. e) not_none (fst (parse_loop (ns1 @ n # ns2) [] tr)) =
        map_sum (\<lambda>e. e) not_none (fst (parse_loop (ns1 @ ns2) [] tr)))
   \<and> ((ntype n = ''type_definition'' \<or> ntype n = ''declaration'')
        \<and> child_by_field_name n ''declarator'' = None \<longrightarrow>
        parse_node n = (Inl (AssertionError []), []))
   \<and> (ntype n = ''type_definition'' \<and> child_by_field_name n ''declarator'' = Some d
        \<and> ntype d = ''function_declarator''
        \<and> child_by_field_name d ''declarator'' = Some c
        \<and> ntype c \<noteq> ''parenthesized_declarator'' \<longrightarrow>
        parse_node n = (Inl (AssertionError []), []))
   \<and> (ntype n = ''declaration'' \<and> child_by_field_name n ''declarator'' = Some d
        \<and> ntype d = ''function_declarator''
        \<and> child_by_field_name d ''declarator'' = Some c
        \<and> ntype c \<noteq> ''identifier'' \<longrightarrow>
        parse_node n = (Inl (AssertionError (''Got '' @ ntype c)), []))"
proof (intro conjI impI)
  assume "ntype n = '';''"
  then show "parse_node n = (Inr [], [])" by (rule terminator_ignored)
next
  assume "ntype n \<notin> {''type_definition'', ''declaration'', ''struct_specifier'',
                       ''enum_specifier'', '';''}"
  then show "parse_node n = (Inr [], [Print Stdout (''Unhandled node: '' @ ntype n)])"
    by (rule unknown_node_logged)
next
  assume "ntype n = ''type_definition'' \<and> child_by_field_name n ''declarator'' = Some d
        \<and> ntype d \<notin> {''function_declarator'', ''type_identifier'', ''pointer_declarator''}"
  then show "parse_node n =
          (Inr [None],
           [Print Stdout (''Unhandled declarator in _parse_type_definition: '' @ ntype d)])"
    using typedef_declarator_skipped [of n d] by blast
next
  assume "ntype n = ''declaration'' \<and> child_by_field_name n ''declarator'' = Some d
        \<and> ntype d \<notin> {''function_declarator'', ''pointer_declarator'', ''identifier'',
                        ''array_declarator''}"
  then show "parse_node n =
          (Inr [None],
           [Print Stdout (''Unhandled declarator in _parse_declaration: '' @ ntype d)])"
    using declaration_declarator_skipped [of n d] by blast
next
  assume "ntype n = ''enum_specifier'' \<and> child_by_field_name n ''name'' = None"
  then show "parse_node n = (Inr [None], [])"
    using anonymous_enum_dropped [of n] by blast
next
  assume "parse_node n = (Inr ps, out) \<and> not_none ps = []"
  then show "map_sum (\<lambda>e. e) not_none (fst (parse_loop (ns1 @ n # ns2) [] tr)) =
        map_sum (\<lambda>e. e) not_none (fst (parse_loop (ns1 @ ns2) [] tr))"
    using skipped_node_continues [of n ps out ns1 ns2 tr] by blast
next
  assume "(ntype n = ''type_definition'' \<or> ntype n = ''declaration'')
        \<and> child_by_field_name n ''declarator'' = None"
  then show "parse_node n = (Inl (AssertionError []), [])"
    using missing_declarator_asserts [of n] by blast
next
  assume "ntype n = ''type_definition'' \<and> child_by_field_name n ''declarator'' = Some d
        \<and> ntype d = ''function_declarator''
        \<and> child_by_field_name d ''declarator'' = Some c
        \<and> ntype c \<noteq> ''parenthesized_declarator''"
  then show "parse_node n = (Inl (AssertionError []), [])"
    using typedef_function_asserts [of n d c] by blast
next
  assume "ntype n = ''declaration'' \<and> child_by_field_name n ''declarator'' = Some d
        \<and> ntype d = ''function_declarator''
        \<and> child_by_field_name d ''declarator'' = Some c
        \<and> ntype c \<noteq> ''identifier''"
  then show "parse_node n = (Inl (AssertionError (''Got '' @ ntype c)), [])"
    using declaration_function_asserts [of n d c] by blast
qed

theorem unrecognized_shapes_are_skipped_witness:
  "parse_node semicolon_node = (Inr [], [])
   \<and> parse_node pragma_node = (Inr [], [Print Stdout ''Unhandled node: preproc_call''])
   \<and> parse_node array_typedef =
       (Inr [None],
        [Print Stdout ''Unhandled declarator in _parse_type_definition: array_declarator''])
   \<and> parse_node init_declaration =
       (Inr [None],
        [Print Stdout ''Unhandled declarator in _parse_declaration: init_declarator''])
   \<and> parse_node anonymous_enum = (Inr [None], [])
   \<and> map_sum (\<lambda>e. e) not_none
         (fst (parse_loop ([fun_declaration ''widget_free''] @ array_typedef
                           # [fun_declaration ''printf'']) [] [])) =
       Inr [widget_free_fun, \<lparr>stype = FUNDEF, symbol = ''printf''\<rparr>]
   \<and> parse_node no_declarator = (Inl (AssertionError []), [])
   \<and> parse_node fn_typedef = (Inl (AssertionError []), [])
   \<and> parse_node fn_returning_fn =
       (Inl (AssertionError ''Got parenthesized_declarator''), [])"
proof -
  have w1: "parse_node semicolon_node = (Inr [], [])"
  proof -
    have "ntype semicolon_node = '';''" by code_simp
    then show ?thesis
      using unrecognized_shapes_are_skipped [where n = semicolon_node] by blast
  qed
  have w2: "parse_node pragma_node = (Inr [], [Print Stdout ''Unhandled node: preproc_call''])"
  proof -
    have "ntype pragma_node \<notin> {''type_definition'', ''declaration'', ''struct_specifier'',
                   ''enum_specifier'', '';''}" by code_simp
    moreover have "ntype pragma_node = ''preproc_call''" by code_simp
    ultimately show ?thesis
      using unrecognized_shapes_are_skipped [where n = pragma_node] by simp
  qed
  have w3: "parse_node array_typedef =
       (Inr [None],
        [Print Stdout ''Unhandled declarator in _parse_type_definition: array_declarator''])"
  proof -
    let ?d = "Node ''array_declarator'' ''arr_t[3]''
                [(''declarator'', Node ''type_identifier'' ''arr_t'' [] [])] []"
    have "ntype array_typedef = ''type_definition''" by code_simp
    moreover have "child_by_field_name array_typedef ''declarator'' = Some ?d" by code_simp
    moreover have "ntype ?d \<notin> {''function_declarator'', ''type_identifier'',
                                 ''pointer_declarator''}" by simp
    ultimately show ?thesis
      using unrecognized_shapes_are_skipped [where n = array_typedef and d = ?d] by simp
  qed
  have w4: "parse_node init_declaration =
       (Inr [None],
        [Print Stdout ''Unhandled declarator in _parse_declaration: init_declarator''])"
  proof -
    let ?d = "Node ''init_declarator'' ''x = 3''
                [(''declarator'', Node ''identifier'' ''x'' [] [])] []"
    have "ntype init_declaration = ''declaration''" by code_simp
    moreover have "child_by_field_name init_declaration ''declarator'' = Some ?d" by code_simp
    moreover have "ntype ?d \<notin> {''function_declarator'', ''pointer_declarator'',
                                 ''identifier'', ''array_declarator''}" by simp
    ultimately show ?thesis
      using unrecognized_shapes_are_skipped [where n = init_declaration and d = ?d] by simp
  qed
  have w5: "parse_node anonymous_enum = (Inr [None], [])"
  proof -
    have "ntype anonymous_enum = ''enum_specifier''" by code_simp
    moreover have "child_by_field_name anonymous_enum ''name'' = None" by code_simp
    ultimately show ?thesis
      using unrecognized_shapes_are_skipped [where n = anonymous_enum] by simp
  qed
  have w6: "map_sum (\<lambda>e. e) not_none
         (fst (parse_loop ([fun_declaration ''widget_free''] @ array_typedef
                           # [fun_declaration ''printf'']) [] [])) =
       Inr [widget_free_fun, \<lparr>stype = FUNDEF, symbol = ''printf''\<rparr>]"
  proof -
    have "not_none [None :: HeaderSymbol option] = []" by (simp add: not_none_def)
    moreover have "map_sum (\<lambda>e. e) not_none
         (fst (parse_loop ([fun_declaration ''widget_free''] @ [fun_declaration ''printf''])
                 [] [])) =
       Inr [widget_free_fun, \<lparr>stype = FUNDEF, symbol = ''printf''\<rparr>]" by code_simp
    ultimately show ?thesis
      using unrecognized_shapes_are_skipped
              [where n = array_typedef and ps = "[None]"
                 and out = "[Print Stdout
                      ''Unhandled declarator in _parse_type_definition: array_declarator'']"
                 and ?ns1.0 = "[fun_declaration ''widget_free'']"
                 and ?ns2.0 = "[fun_declaration ''printf'']" and tr = "[]"]
        w3
      by simp
  qed
  have w7: "parse_node no_declarator = (Inl (AssertionError []), [])"
  proof -
    have "ntype no_declarator = ''declaration''" by code_simp
    moreover have "child_by_field_name no_declarator ''declarator'' = None" by code_simp
    ultimately show ?thesis
      using unrecognized_shapes_are_skipped [where n = no_declarator] by simp
  qed
  have w8: "parse_node fn_typedef = (Inl (AssertionError []), [])"
  proof -
    let ?c = "Node ''type_identifier'' ''fn_t'' [] []"
    let ?d = "Node ''function_declarator'' ''fn_t(int)''
           [(''declarator'', ?c),
            (''parameters'', Node ''parameter_list'' ''(int)'' [] [])] []"
    have "ntype fn_typedef = ''type_definition''" by code_simp
    moreover have "child_by_field_name fn_typedef ''declarator'' = Some ?d" by code_simp
    moreover have "ntype ?d = ''function_declarator''" by simp
    moreover have "child_by_field_name ?d ''declarator'' = Some ?c" by code_simp
    moreover have "ntype ?c \<noteq> ''parenthesized_declarator''" by simp
    ultimately show ?thesis
      using unrecognized_shapes_are_skipped [where n = fn_typedef and d = ?d and c = ?c] by simp
  qed
  have w9: "parse_node fn_returning_fn =
       (Inl (AssertionError ''Got parenthesized_declarator''), [])"
  proof -
    let ?c = "Node ''parenthesized_declarator'' ''(*get(void))'' [] []"
    let ?d = "Node ''function_declarator'' ''(*get(void))(int)'' [(''declarator'', ?c)] []"
    have "ntype fn_returning_fn = ''declaration''" by code_simp
    moreover have "child_by_field_name fn_returning_fn ''declarator'' = Some ?d" by code_simp
    moreover have "ntype ?d = ''function_declarator''" by simp
    moreover have "child_by_field_name ?d ''declarator'' = Some ?c" by code_simp
    moreover have "ntype ?c \<noteq> ''identifier''" by simp
    ultimately show ?thesis
      using unrecognized_shapes_are_skipped [where n = fn_returning_fn and d = ?d and c = ?c] by simp
  qed
  show ?thesis using w1 w2 w3 w4 w5 w6 w7 w8 w9 by (intro conjI)
qed

text \<open>
  The claim as it was stated has structural parsing never raise. A typedef of a function
  type, \<open>typedef int fn_t(int);\<close>, has a function declarator whose inner declarator is a
  type identifier: the assertion of \<open>_parse_type_definition\<close> fails, and the extraction
  of a header that holds this line ends in the error.
\<close>

theorem parse_node_raises_counterexample:
  "parse_node fn_typedef = (Inl (AssertionError []), [])
   \<and> fst (parse_header_text example_os
              (join [CHR 0x0A] [widget_marker, ''typedef int fn_t(int);''])
              []) = Inl (AssertionError [])"
  by code_simp

section \<open>The cross-product sweep\<close>

lemma runs_append: "runs (tr1 @ tr2) = runs tr1 @ runs tr2"
  by (simp add: runs_def)

lemma runs_simps:
  "runs [] = []"
  "runs (Print s l # tr) = runs tr"
  "runs (Run args # tr) = args # runs tr"
  by (simp_all add: runs_def)

lemma runs_prints: "runs (map (\<lambda>x. Print s (f x)) xs) = []"
  by (induction xs) (simp_all add: runs_simps)

lemma runs_print_cmd: "print_cmd args = Inr shown \<Longrightarrow> runs shown = []"
  by (cases args) (auto simp add: print_cmd_def runs_simps runs_append runs_prints)

lemma print_cmd_shows: "args \<noteq> [] \<Longrightarrow> \<exists>shown. print_cmd args = Inr shown"
  by (cases args) (simp_all add: print_cmd_def)

lemma runs_render: "runs (snd (render output_format outfile pair result abidiff_args)) = []"
proof -
  obtain u1 c1 u2 c2 where p: "pair = ((u1, c1), (u2, c2))"
    by (metis surj_pair)
  show ?thesis
    unfolding p render_def Let_def
    by (cases "return_code_to_diff_type (returncode result)"; cases "print_cmd abidiff_args")
       (simp_all add: runs_simps runs_append runs_print_cmd)
qed

lemma render_no_error:
  assumes "abidiff_args \<noteq> []"
  shows "fst (render output_format outfile pair result abidiff_args) = None"
proof -
  obtain u1 c1 u2 c2 where p: "pair = ((u1, c1), (u2, c2))"
    by (metis surj_pair)
  obtain shown where s: "print_cmd abidiff_args = Inr shown"
    using print_cmd_shows [OF assms] by blast
  show ?thesis
    unfolding p render_def Let_def
    by (cases "return_code_to_diff_type (returncode result)") (simp_all add: s)
qed

lemma cmd_body_rendered:
  assumes "ds (snd (fst p)) (snd (snd p)) tr = (Inr (Some (result, args)), tr1)"
    and "args \<noteq> []"
  shows "cmd_body ds output_format outfile p tr =
           (None, tr1 @ snd (render output_format outfile p result args))"
  using render_no_error [OF assms(2), of output_format outfile p result]
  by (cases "render output_format outfile p result args") (simp add: cmd_body_def assms(1))

lemma cmd_loop_append:
  "cmd_loop ds output_format outfile (ps @ qs) tr =
     (case cmd_loop ds output_format outfile ps tr of
        (Some e, tr1) \<Rightarrow> (Some e, tr1)
      | (None, tr1) \<Rightarrow> cmd_loop ds output_format outfile qs tr1)"
proof (induction ps arbitrary: tr)
  case Nil
  then show ?case by simp
next
  case (Cons p ps)
  obtain r tr1 where b: "cmd_body ds output_format outfile p tr = (r, tr1)"
    by (cases "cmd_body ds output_format outfile p tr")
  show ?case using b Cons.IH [of tr1] by (cases r) simp_all
qed

lemma cmd_loop_all_compared:
  assumes "\<forall>c1 c2 t. \<exists>result args.
             args \<noteq> [] \<and> ds c1 c2 t = (Inr (Some (result, args)), t @ [Run args])"
  shows "fst (cmd_loop ds output_format outfile ps tr) = None
         \<and> length (runs (snd (cmd_loop ds output_format outfile ps tr))) =
             length (runs tr) + length ps"
proof (induction ps arbitrary: tr)
  case Nil
  then show ?case by simp
next
  case (Cons p ps)
  obtain result args where
    d: "ds (snd (fst p)) (snd (snd p)) tr = (Inr (Some (result, args)), tr @ [Run args])"
    and n: "args \<noteq> []"
    using assms by blast
  have b: "cmd_body ds output_format outfile p tr =
             (None, (tr @ [Run args]) @ snd (render output_format outfile p result args))"
    using d n by (rule cmd_body_rendered)
  show ?case
    using Cons.IH [of "(tr @ [Run args]) @ snd (render output_format outfile p result args)"] b
    by (simp add: runs_append runs_render runs_simps)
qed

text \<open>
  C6, as the code has it. The sweep takes the pairs of the cross product one after the
  other. A comparison that returns a process result (with the command it ran) is
  classified and rendered, and the sweep goes on with the next pair whatever the exit
  code: when every comparison returns a result, all \<open>n * (n - 1)\<close> comparisons are run. Nothing in the loop captures an error:
  the first error raised for a pair ends the sweep with that error, and the remaining
  pairs are not compared.
\<close>

theorem sweep_stops_at_first_error:
  "cmd_loop ds output_format outfile (ps @ qs) tr =
     (case cmd_loop ds output_format outfile ps tr of
        (Some e, tr1) \<Rightarrow> (Some e, tr1)
      | (None, tr1) \<Rightarrow> cmd_loop ds output_format outfile qs tr1)
   \<and> (cmd_loop ds output_format outfile ps tr = (Some e, tr1) \<longrightarrow>
        cmd_loop ds output_format outfile (ps @ qs) tr = (Some e, tr1))
   \<and> (ds (snd (fst p)) (snd (snd p)) tr = (Inl e, tr1) \<longrightarrow>
        cmd_loop ds output_format outfile (p # qs) tr = (Some e, tr1))
   \<and> (ds (snd (fst p)) (snd (snd p)) tr = (Inr (Some (result, args)), tr1) \<and> args \<noteq> [] \<longrightarrow>
        cmd_loop ds output_format outfile (p # qs) tr =
          cmd_loop ds output_format outfile qs
            (tr1 @ snd (render output_format outfile p result args)))
   \<and> ((\<forall>c1 c2 t. \<exists>r a. a \<noteq> [] \<and> ds c1 c2 t = (Inr (Some (r, a)), t @ [Run a])) \<longrightarrow>
        fst (cmd_loop ds output_format outfile (cross_product_self specs) tr) = None
        \<and> length (runs (snd (cmd_loop ds output_format outfile
                                  (cross_product_self specs) tr))) =
            length (runs tr) + length specs * (length specs - 1))
   \<and> DiffProductCmd_cmd os output_format output_file specs tr =
       cmd_loop (\<lambda>c1 c2. diff_specs os c1 c2 None None None None False [])
         output_format (if truthy output_file then Outfile else Stdout)
         (cross_product_self specs) tr"
proof (intro conjI impI)
  show "cmd_loop ds output_format outfile (ps @ qs) tr =
     (case cmd_loop ds output_format outfile ps tr of
        (Some e, tr1) \<Rightarrow> (Some e, tr1)
      | (None, tr1) \<Rightarrow> cmd_loop ds output_format outfile qs tr1)"
    by (rule cmd_loop_append)
next
  assume "cmd_loop ds output_format outfile ps tr = (Some e, tr1)"
  then show "cmd_loop ds output_format outfile (ps @ qs) tr = (Some e, tr1)"
    by (simp add: cmd_loop_append)
next
  assume "ds (snd (fst p)) (snd (snd p)) tr = (Inl e, tr1)"
  then show "cmd_loop ds output_format outfile (p # qs) tr = (Some e, tr1)"
    by (simp add: cmd_body_def)
next
  assume "ds (snd (fst p)) (snd (snd p)) tr = (Inr (Some (result, args)), tr1) \<and> args \<noteq> []"
  then have "cmd_body ds output_format outfile p tr =
           (None, tr1 @ snd (render output_format outfile p result args))"
    using cmd_body_rendered [of ds p tr result args tr1 output_format outfile] by blast
  then show "cmd_loop ds output_format outfile (p # qs) tr =
          cmd_loop ds output_format outfile qs
            (tr1 @ snd (render output_format outfile p result args))"
    by simp
next
  assume a: "\<forall>c1 c2 t. \<exists>r a. a \<noteq> [] \<and> ds c1 c2 t = (Inr (Some (r, a)), t @ [Run a])"
  show "fst (cmd_loop ds output_format outfile (cross_product_self specs) tr) = None"
    using cmd_loop_all_compared [OF a] by blast
  show "length (runs (snd (cmd_loop ds output_format outfile
                                  (cross_product_self specs) tr))) =
            length (runs tr) + length specs * (length specs - 1)"
    using cmd_loop_all_compared [OF a, of output_format outfile "cross_product_self specs" tr]
    by (simp add: length_cross_product_self)
next
  show "DiffProductCmd_cmd os output_format output_file specs tr =
       cmd_loop (\<lambda>c1 c2. diff_specs os c1 c2 None None None None False [])
         output_format (if truthy output_file then Outfile else Stdout)
         (cross_product_self specs) tr"
    by (simp add: DiffProductCmd_cmd_def Let_def)
qed

theorem sweep_stops_at_first_error_witness:
  "cmd_loop (\<lambda>c1 c2. diff_specs (example_os\<lparr>which := \<lambda>cmd. None\<rparr>) c1 c2
                         None None None None False [])
      ''raw'' Stdout [((spec_a, spec_a), (spec_b, spec_b))] [] =
     (Some (RuntimeError ''Unable to find `abidiff` executable in PATH''), [])
   \<and> cmd_loop (\<lambda>c1 c2. diff_specs (example_os\<lparr>which := \<lambda>cmd. None\<rparr>) c1 c2
                         None None None None False [])
      ''raw'' Stdout
      ([((spec_a, spec_a), (spec_b, spec_b))] @ [((spec_b, spec_b), (spec_a, spec_a))]) [] =
     (Some (RuntimeError ''Unable to find `abidiff` executable in PATH''), [])
   \<and> cmd_loop (\<lambda>c1 c2. diff_specs (example_os\<lparr>which := \<lambda>cmd. None\<rparr>) c1 c2
                         None None None None False [])
      ''raw'' Stdout
      (((spec_a, spec_a), (spec_b, spec_b)) # [((spec_b, spec_b), (spec_a, spec_a))]) [] =
     (Some (RuntimeError ''Unable to find `abidiff` executable in PATH''), [])
   \<and> fst (cmd_loop usage_error_differ ''can_splice'' Stdout
            (cross_product_self [(spec_a, spec_a), (spec_b, spec_b)]) []) = None
   \<and> length (runs (snd (cmd_loop usage_error_differ ''can_splice'' Stdout
                           (cross_product_self [(spec_a, spec_a), (spec_b, spec_b)]) []))) = 2
   \<and> cmd_loop usage_error_differ ''can_splice'' Stdout
         (((spec_a, spec_a), (spec_b, spec_b)) # []) [] =
       (None,
        [Run [''abidiff''],
         Print Stdout ''abidiff reported a usage error when comparing liba@1.0 and liba@2.0'',
         Print Stdout ''---------------'', Print Stdout ''abidiff'',
         Print Stdout ''---------------''])"
proof -
  let ?ds = "\<lambda>c1 c2. diff_specs (example_os\<lparr>which := \<lambda>cmd. None\<rparr>) c1 c2
                         None None None None False []"
  let ?p = "((spec_a, spec_a), (spec_b, spec_b))"
  let ?q = "((spec_b, spec_b), (spec_a, spec_a))"
  let ?e = "RuntimeError ''Unable to find `abidiff` executable in PATH''"
  have d: "?ds (snd (fst ?p)) (snd (snd ?p)) [] = (Inl ?e, [])" by code_simp
  have one: "cmd_loop ?ds ''raw'' Stdout [?p] [] = (Some ?e, [])"
    using sweep_stops_at_first_error
            [where ds = ?ds and p = ?p and tr = "[]" and e = ?e and ?tr1.0 = "[]"
               and qs = "[]" and output_format = "''raw''" and outfile = Stdout] d
    by simp
  have two: "cmd_loop ?ds ''raw'' Stdout ([?p] @ [?q]) [] = (Some ?e, [])"
    using sweep_stops_at_first_error
            [where ds = ?ds and ps = "[?p]" and tr = "[]" and e = ?e and ?tr1.0 = "[]"
               and qs = "[?q]" and output_format = "''raw''" and outfile = Stdout] one
    by simp
  have three: "cmd_loop ?ds ''raw'' Stdout (?p # [?q]) [] = (Some ?e, [])"
    using sweep_stops_at_first_error
            [where ds = ?ds and p = ?p and tr = "[]" and e = ?e and ?tr1.0 = "[]"
               and qs = "[?q]" and output_format = "''raw''" and outfile = Stdout] d
    by simp
  have u: "\<forall>c1 c2 t. \<exists>r a. a \<noteq> [] \<and>
             usage_error_differ c1 c2 t = (Inr (Some (r, a)), t @ [Run a])"
    by (simp add: usage_error_differ_def)
  have four: "fst (cmd_loop usage_error_differ ''can_splice'' Stdout
            (cross_product_self [(spec_a, spec_a), (spec_b, spec_b)]) []) = None
     \<and> length (runs (snd (cmd_loop usage_error_differ ''can_splice'' Stdout
                           (cross_product_self [(spec_a, spec_a), (spec_b, spec_b)]) []))) = 2"
    using sweep_stops_at_first_error
            [where ds = usage_error_differ and specs = "[(spec_a, spec_a), (spec_b, spec_b)]"
               and tr = "[]" and output_format = "''can_splice''" and outfile = Stdout] u
    by (simp add: runs_simps)
  have r: "snd (render ''can_splice'' Stdout ?p
                  \<lparr>returncode = 2, stdout = [], stderr = ''usage''\<rparr> [''abidiff'']) =
        [Print Stdout ''abidiff reported a usage error when comparing liba@1.0 and liba@2.0'',
         Print Stdout ''---------------'', Print Stdout ''abidiff'',
         Print Stdout ''---------------'']"
    by code_simp
  have five: "cmd_loop usage_error_differ ''can_splice'' Stdout (?p # []) [] =
       (None,
        [Run [''abidiff''],
         Print Stdout ''abidiff reported a usage error when comparing liba@1.0 and liba@2.0'',
         Print Stdout ''---------------'', Print Stdout ''abidiff'',
         Print Stdout ''---------------''])"
    using sweep_stops_at_first_error
            [where ds = usage_error_differ and p = ?p and tr = "[]" and qs = "[]"
               and result = "\<lparr>returncode = 2, stdout = [], stderr = ''usage''\<rparr>"
               and args = "[''abidiff'']" and ?tr1.0 = "[Run [''abidiff'']]"
               and output_format = "''can_splice''" and outfile = Stdout] r
    by (simp add: usage_error_differ_def)
  show ?thesis using one two three four five by (intro conjI) simp_all
qed

text \<open>
  The claim as it was stated has the sweep go through all comparisons whatever fails for
  a pair. With two specs there are two pairs. When the comparison tool is not found, the
  error of the first pair ends the sweep and nothing is run. When the tool runs and
  exits with code 2, the first comparison is run, and the sweep ends there too, in the
  \<open>TypeError\<close> of unpacking the value of \<open>diff_specs\<close>.
\<close>

theorem sweep_aborts_counterexample:
  "length (cross_product_self [(spec_a, spec_a), (spec_b, spec_b)]) = 2
   \<and> DiffProductCmd_cmd (example_os\<lparr>which := \<lambda>cmd. None\<rparr>) ''can_splice'' None
         [(spec_a, spec_a), (spec_b, spec_b)] [] =
       (Some (RuntimeError ''Unable to find `abidiff` executable in PATH''), [])
   \<and> fst (DiffProductCmd_cmd example_os ''can_splice'' None
              [(spec_a, spec_a), (spec_b, spec_b)] []) =
       Some (TypeError ''cannot unpack non-iterable NoneType object'')
   \<and> length (runs (snd (DiffProductCmd_cmd example_os ''can_splice'' None
                           [(spec_a, spec_a), (spec_b, spec_b)] []))) = 1"
  by code_simp

end
